theory Spec2Isabelle
  imports Complex_Main
begin

section \<open>Python values and exceptions\<close>

text \<open>
  The values \<^verbatim>\<open>json.loads\<close> produces and the values the request bodies hold:
  \<^verbatim>\<open>None\<close>, booleans, numbers (Python's ints and finite floats, compared by value as
  \<^verbatim>\<open>==\<close> does), strings, lists and dictionaries with string keys (an association
  list read with \<open>map_of\<close>).
\<close>

datatype pyval =
    PNone
  | PBool bool
  | PNum rat
  | PStr string
  | PList "pyval list"
  | PDict "(string \<times> pyval) list"

text \<open>
  The exception classes the module raises, catches or lets through.
  \<open>HttpError c\<close> carries what \<^verbatim>\<open>json.loads(e.content)\<close> gives for its body: \<open>None\<close>
  when the body is not JSON (\<^verbatim>\<open>json.loads\<close> raises \<^verbatim>\<open>ValueError\<close>).
  \<open>Exception fmt args\<close> is \<^verbatim>\<open>Exception(fmt % args)\<close>. \<open>OtherError name\<close> stands for
  every class the module never names.
\<close>

datatype exn =
    SSLError string
  | BadStatusLine string
  | HttpError "pyval option"
  | AuthorizationFaultError
  | ExportFormatError string
  | Exception string "int list"
  | UnboundLocalError
  | AttributeError
  | TypeError
  | IndexError
  | KeyError
  | ValueError
  | IOError
  | OSError
  | OtherError string

text \<open>\<^verbatim>\<open>x.get(k)\<close>: only a dictionary has the method.\<close>

definition py_get :: "pyval \<Rightarrow> string \<Rightarrow> exn + pyval" where
  "py_get x k =
     (case x of
        PDict kvs \<Rightarrow> Inr (case map_of kvs k of None \<Rightarrow> PNone | Some v \<Rightarrow> v)
      | _ \<Rightarrow> Inl AttributeError)"

text \<open>\<^verbatim>\<open>x[0]\<close>: the keys of a dictionary read from JSON are strings, so \<^verbatim>\<open>0\<close> is never one.\<close>

definition py_item0 :: "pyval \<Rightarrow> exn + pyval" where
  "py_item0 x =
     (case x of
        PList [] \<Rightarrow> Inl IndexError
      | PList (v # _) \<Rightarrow> Inr v
      | PStr [] \<Rightarrow> Inl IndexError
      | PStr (c # _) \<Rightarrow> Inr (PStr [c])
      | PDict _ \<Rightarrow> Inl KeyError
      | _ \<Rightarrow> Inl TypeError)"

section \<open>The retrying proxy\<close>

text \<open>
  What \<^verbatim>\<open>proxied_method\<close> calls: the wrapped method of the Drive manager,
  \<^verbatim>\<open>get_auth().check_credential_state()\<close>, \<^verbatim>\<open>random.randint(0, 1000)\<close> and
  \<^verbatim>\<open>time.sleep\<close>, each a function of the world \<open>'w\<close> outside the module.
\<close>

record ('w, 'a) proxy_env =
  "method" :: "'w \<Rightarrow> (exn + 'a) \<times> 'w"
  check_credential_state :: "'w \<Rightarrow> (exn + unit) \<times> 'w"
  randint :: "'w \<Rightarrow> nat \<times> 'w"
  sleep :: "nat \<Rightarrow> 'w \<Rightarrow> 'w"

text \<open>
  \<^verbatim>\<open>time.sleep((2 ** n) + random.randint(0, 1000) / 1000)\<close>; the division is
  Python 2's integer division.
\<close>

definition backoff :: "('w, 'a) proxy_env \<Rightarrow> nat \<Rightarrow> 'w \<Rightarrow> 'w" where
  "backoff env n w = (case randint env w of (r, w1) \<Rightarrow> sleep env (2 ^ n + r div 1000) w1)"

text \<open>
  \<^verbatim>\<open>error.get('code') == 403 and error.get('errors')[0].get('reason') in
  ['rateLimitExceeded', 'userRateLimitExceeded']\<close>, with the exceptions its
  sub-expressions raise.
\<close>

definition rate_limited :: "pyval \<Rightarrow> exn + bool" where
  "rate_limited error =
     (case py_get error ''code'' of
        Inl x \<Rightarrow> Inl x
      | Inr code \<Rightarrow>
          if code \<noteq> PNum 403 then Inr False
          else (case py_get error ''errors'' of
                  Inl x \<Rightarrow> Inl x
                | Inr errors \<Rightarrow>
                    (case py_item0 errors of
                       Inl x \<Rightarrow> Inl x
                     | Inr first \<Rightarrow>
                         (case py_get first ''reason'' of
                            Inl x \<Rightarrow> Inl x
                          | Inr reason \<Rightarrow>
                              Inr (reason = PStr ''rateLimitExceeded''
                                   \<or> reason = PStr ''userRateLimitExceeded'')))))"

text \<open>
  One pass through the \<^verbatim>\<open>except\<close> clauses of the loop body, for the exception \<open>e\<close>
  of attempt \<open>n\<close>. The local variable \<^verbatim>\<open>error\<close> is \<open>None\<close> while unbound; it keeps
  its value from one iteration to the next. A bare \<^verbatim>\<open>raise\<close> re-raises the exception
  handled last, which after the inner \<^verbatim>\<open>except ValueError\<close> is that \<^verbatim>\<open>ValueError\<close>.
\<close>

datatype 'w handled = Reraise exn 'w | Retry "pyval option" 'w

definition handle_exn ::
  "('w, 'a) proxy_env \<Rightarrow> bool \<Rightarrow> nat \<Rightarrow> pyval option \<Rightarrow> exn \<Rightarrow> 'w \<Rightarrow> 'w handled" where
  "handle_exn env auto_refresh n error e w =
     (case e of
        SSLError _ \<Rightarrow> Retry error (backoff env n w)
      | BadStatusLine _ \<Rightarrow> Retry error (backoff env n w)
      | HttpError content \<Rightarrow>
          (let error' = (case content of Some j \<Rightarrow> Some j | None \<Rightarrow> error) in
           case error' of
             None \<Rightarrow> Reraise UnboundLocalError w
           | Some err \<Rightarrow>
               (case rate_limited err of
                  Inl x \<Rightarrow> Reraise x w
                | Inr True \<Rightarrow> Retry error' (backoff env n w)
                | Inr False \<Rightarrow> Reraise (if content = None then ValueError else e) w))
      | AuthorizationFaultError \<Rightarrow>
          if \<not> auto_refresh \<or> n = 1 then Reraise e w
          else (case check_credential_state env w of
                  (Inl x, w1) \<Rightarrow> Reraise x w1
                | (Inr _, w1) \<Rightarrow> Retry error w1)
      | _ \<Rightarrow> Reraise e w)"

text \<open>
  \<^verbatim>\<open>for n in range(0, 5)\<close>: the method's value is returned as \<open>Some v\<close>; a loop that
  runs out falls off the end of the function, which returns \<^verbatim>\<open>None\<close>.
\<close>

function proxied_loop ::
  "('w, 'a) proxy_env \<Rightarrow> bool \<Rightarrow> nat \<Rightarrow> pyval option \<Rightarrow> 'w \<Rightarrow> (exn + 'a option) \<times> 'w" where
  "proxied_loop env auto_refresh n error w =
     (if 5 \<le> n then (Inr None, w)
      else (case method env w of
              (Inr v, w1) \<Rightarrow> (Inr (Some v), w1)
            | (Inl e, w1) \<Rightarrow>
                (case handle_exn env auto_refresh n error e w1 of
                   Reraise x w2 \<Rightarrow> (Inl x, w2)
                 | Retry error' w2 \<Rightarrow> proxied_loop env auto_refresh (Suc n) error' w2)))"
  by pat_completeness auto
termination
  by (relation "measure (\<lambda>(env, auto_refresh, n, error, w). 5 - n)") auto

definition proxied_method ::
  "('w, 'a) proxy_env \<Rightarrow> bool \<Rightarrow> 'w \<Rightarrow> (exn + 'a option) \<times> 'w" where
  "proxied_method env auto_refresh w = proxied_loop env auto_refresh 0 None w"

text \<open>
  A test double for the world of the proxy: it counts the invocations of the method and
  the credential refreshes and lists the sleeps. The k-th invocation (from 0) has the
  outcome \<open>outcome k\<close>, the k-th refresh \<open>refresh k\<close>, the k-th draw of
  \<^verbatim>\<open>random.randint\<close> gives \<open>jitter k\<close>.
\<close>

record sim =
  invocations :: nat
  sleeps :: "nat list"
  refreshes :: nat

definition sim0 :: sim where
  "sim0 = \<lparr>invocations = 0, sleeps = [], refreshes = 0\<rparr>"

definition scripted ::
  "(nat \<Rightarrow> exn + 'a) \<Rightarrow> (nat \<Rightarrow> exn + unit) \<Rightarrow> (nat \<Rightarrow> nat) \<Rightarrow> (sim, 'a) proxy_env" where
  "scripted outcome refresh jitter =
     \<lparr>method = (\<lambda>w. (outcome (invocations w), w\<lparr>invocations := Suc (invocations w)\<rparr>)),
      check_credential_state = (\<lambda>w. (refresh (refreshes w), w\<lparr>refreshes := Suc (refreshes w)\<rparr>)),
      randint = (\<lambda>w. (jitter (length (sleeps w)), w)),
      sleep = (\<lambda>s w. w\<lparr>sleeps := sleeps w @ [s]\<rparr>)\<rparr>"

text \<open>The two classes of the first \<^verbatim>\<open>except\<close> clause, and the classes no clause names.\<close>

definition transient :: "exn \<Rightarrow> bool" where
  "transient e = (case e of SSLError _ \<Rightarrow> True | BadStatusLine _ \<Rightarrow> True | _ \<Rightarrow> False)"

definition uncaught :: "exn \<Rightarrow> bool" where
  "uncaught e =
     (case e of
        SSLError _ \<Rightarrow> False
      | BadStatusLine _ \<Rightarrow> False
      | HttpError _ \<Rightarrow> False
      | AuthorizationFaultError \<Rightarrow> False
      | _ \<Rightarrow> True)"

text \<open>A rate-limit body as the proxy recognises it.\<close>

definition rate_limit_body :: pyval where
  "rate_limit_body =
     PDict [(''code'', PNum 403),
            (''errors'', PList [PDict [(''reason'', PStr ''rateLimitExceeded'')]])]"

section \<open>The Drive manager: authorization and the memoized client\<close>

text \<open>
  \<^verbatim>\<open>GdriveAuth\<close> holds the client it has built, \<open>None\<close> until the first build. The
  world outside (\<open>'n\<close>: the network, the credential store) is reached through
  \<^verbatim>\<open>get_credentials\<close> and through \<^verbatim>\<open>build\<close>, which fetches the discovery document.
\<close>

record ('n, 'c) session =
  client :: "'c option"
  net :: "'n"

record ('n, 'c) auth_env =
  get_credentials :: "'n \<Rightarrow> (exn + unit) \<times> 'n"
  build :: "'n \<Rightarrow> (exn + 'c) \<times> 'n"

definition get_authed_http ::
  "('n, 'c) auth_env \<Rightarrow> ('n, 'c) session \<Rightarrow> (exn + unit) \<times> ('n, 'c) session" where
  "get_authed_http env s =
     (case get_credentials env (net s) of
        (Inl x, n1) \<Rightarrow> (Inl x, s\<lparr>net := n1\<rparr>)
      | (Inr _, n1) \<Rightarrow> (Inr (), s\<lparr>net := n1\<rparr>))"

definition get_client ::
  "('n, 'c) auth_env \<Rightarrow> ('n, 'c) session \<Rightarrow> (exn + 'c) \<times> ('n, 'c) session" where
  "get_client env s =
     (case client s of
        Some c \<Rightarrow> (Inr c, s)
      | None \<Rightarrow>
          (case get_authed_http env s of
             (Inl x, s1) \<Rightarrow> (Inl x, s1)
           | (Inr _, s1) \<Rightarrow>
               (case build env (net s1) of
                  (Inl x, n2) \<Rightarrow> (Inl x, s1\<lparr>net := n2\<rparr>)
                | (Inr c, n2) \<Rightarrow> (Inr c, s1\<lparr>client := Some c, net := n2\<rparr>))))"

section \<open>list_changes\<close>

text \<open>
  An item of a change-feed page, read as the loop reads it: \<open>change_id\<close> is
  \<^verbatim>\<open>int(item[u'id'])\<close>, \<open>item_file\<close> is \<^verbatim>\<open>item[u'file']\<close>, which a deleted item need not
  have.
\<close>

record 'raw change_item =
  change_id :: int
  fileId :: string
  deleted :: bool
  item_file :: "'raw option"

record 'raw changes_response =
  items :: "'raw change_item list"
  largestChangeId :: int
  nextPageToken :: "string option"

text \<open>
  \<^verbatim>\<open>changes[k] = v\<close> on an \<^verbatim>\<open>OrderedDict\<close>: a key it has keeps its place and
  takes the new value, a new key goes last.
\<close>

fun od_set :: "('k \<times> 'v) list \<Rightarrow> 'k \<Rightarrow> 'v \<Rightarrow> ('k \<times> 'v) list" where
  "od_set [] k v = [(k, v)]"
| "od_set ((k', v') # kvs) k v = (if k' = k then (k, v) # kvs else (k', v') # od_set kvs k v)"

type_synonym 'e changes = "(int \<times> string \<times> bool \<times> 'e option) list"

text \<open>
  The body of \<^verbatim>\<open>for item in items\<close>. \<open>last_change_id\<close> is \<open>None\<close> before the first item;
  \<^verbatim>\<open>if last_change_id and ...\<close> tests its truth value, false for \<^verbatim>\<open>None\<close> and for 0.
  \<open>normal_entry\<close> is the constructor \<^verbatim>\<open>NormalEntry(source, raw)\<close>.
\<close>

fun list_changes_items ::
  "(string \<Rightarrow> 'raw \<Rightarrow> exn + 'e) \<Rightarrow> 'raw change_item list \<Rightarrow> int option \<Rightarrow> 'e changes
     \<Rightarrow> exn + 'e changes" where
  "list_changes_items normal_entry [] last_change_id changes = Inr changes"
| "list_changes_items normal_entry (item # rest) last_change_id changes =
     (case (if deleted item then Inr None
            else (case item_file item of None \<Rightarrow> Inl KeyError | Some raw \<Rightarrow> Inr (Some raw))) of
        Inl x \<Rightarrow> Inl x
      | Inr entry \<Rightarrow>
          if (case last_change_id of
                None \<Rightarrow> False
              | Some l \<Rightarrow> l \<noteq> 0 \<and> change_id item \<le> l)
          then Inl (Exception
                 ''Change-ID (%d) being processed is less-than the last change-ID (%d) to be processed.''
                 [change_id item, the last_change_id])
          else (case (case entry of
                        None \<Rightarrow> Inr None
                      | Some raw \<Rightarrow>
                          (case normal_entry ''list_changes'' raw of
                             Inl x \<Rightarrow> Inl x
                           | Inr e \<Rightarrow> Inr (Some e))) of
                  Inl x \<Rightarrow> Inl x
                | Inr normalized_entry \<Rightarrow>
                    list_changes_items normal_entry rest (Some (change_id item))
                      (od_set changes (change_id item)
                         (fileId item, deleted item, normalized_entry))))"

text \<open>\<open>changes_list c page_token start_change_id\<close> is the request
  \<^verbatim>\<open>client.changes().list(pageToken=..., startChangeId=...).execute()\<close>.\<close>

definition list_changes ::
  "('n, 'c) auth_env \<Rightarrow> ('c \<Rightarrow> string option \<Rightarrow> int option \<Rightarrow> 'n \<Rightarrow> (exn + 'raw changes_response) \<times> 'n)
     \<Rightarrow> (string \<Rightarrow> 'raw \<Rightarrow> exn + 'e) \<Rightarrow> int option \<Rightarrow> string option \<Rightarrow> ('n, 'c) session
     \<Rightarrow> (exn + int \<times> string option \<times> 'e changes) \<times> ('n, 'c) session" where
  "list_changes env changes_list normal_entry start_change_id page_token s =
     (case get_client env s of
        (Inl x, s1) \<Rightarrow> (Inl x, s1)
      | (Inr c, s1) \<Rightarrow>
          (case changes_list c page_token start_change_id (net s1) of
             (Inl x, n2) \<Rightarrow> (Inl x, s1\<lparr>net := n2\<rparr>)
           | (Inr response, n2) \<Rightarrow>
               (case list_changes_items normal_entry (items response) None [] of
                  Inl x \<Rightarrow> (Inl x, s1\<lparr>net := n2\<rparr>)
                | Inr changes \<Rightarrow>
                    (Inr (largestChangeId response, nextPageToken response, changes),
                     s1\<lparr>net := n2\<rparr>))))"

text \<open>
  What the test \<^verbatim>\<open>if last_change_id and change_id <= last_change_id\<close> lets through:
  each id is larger than the one before it, unless the one before it is 0.
\<close>

fun ordered_from :: "int option \<Rightarrow> int list \<Rightarrow> bool" where
  "ordered_from prev [] = True"
| "ordered_from prev (i # ids) =
     ((case prev of None \<Rightarrow> True | Some l \<Rightarrow> l = 0 \<or> l < i) \<and> ordered_from (Some i) ids)"

text \<open>Fixtures: a page of two deleted items, both with change id 0, and its service.\<close>

definition deleted_item :: "int \<Rightarrow> unit change_item" where
  "deleted_item i = \<lparr>change_id = i, fileId = ''f'', deleted = True, item_file = None\<rparr>"

definition zero_page :: "unit changes_response" where
  "zero_page = \<lparr>items = [deleted_item 0, deleted_item 0], largestChangeId = 0,
                 nextPageToken = None\<rparr>"

definition serve_changes ::
  "unit changes_response \<Rightarrow> unit \<Rightarrow> string option \<Rightarrow> int option \<Rightarrow> nat
     \<Rightarrow> (exn + unit changes_response) \<times> nat" where
  "serve_changes page c page_token start_change_id n = (Inr page, Suc n)"

section \<open>get_children_under_parent_id\<close>

text \<open>Python's truth value of an optional string argument: \<^verbatim>\<open>None\<close> and \<^verbatim>\<open>''\<close> are false.\<close>

definition truthy :: "string option \<Rightarrow> bool" where
  "truthy a = (case a of None \<Rightarrow> False | Some t \<Rightarrow> t \<noteq> [])"

definition quote :: string where
  "quote = [CHR 0x27]"

text \<open>
  A bare \<^verbatim>\<open>raise\<close> outside an \<^verbatim>\<open>except\<close> clause re-raises the exception the thread
  handled last (\<open>active\<close>, Python 2's \<^verbatim>\<open>sys.exc_info()\<close>); with none, the statement
  itself fails with \<^verbatim>\<open>TypeError\<close>.
\<close>

definition bare_raise :: "exn option \<Rightarrow> exn" where
  "bare_raise active = (case active of None \<Rightarrow> TypeError | Some e \<Rightarrow> e)"

text \<open>
  \<open>children_list c q folderId maxResults\<close> is the request
  \<^verbatim>\<open>client.children().list(...).execute()\<close>, giving the ids of its items;
  \<open>escape\<close> is \<^verbatim>\<open>escape_filename_for_query\<close>.
\<close>

definition get_children_under_parent_id ::
  "('n, 'c) auth_env
     \<Rightarrow> ('c \<Rightarrow> string option \<Rightarrow> string \<Rightarrow> nat option \<Rightarrow> 'n \<Rightarrow> (exn + string list) \<times> 'n)
     \<Rightarrow> (string \<Rightarrow> string) \<Rightarrow> exn option
     \<Rightarrow> string \<Rightarrow> string option \<Rightarrow> string option \<Rightarrow> nat option \<Rightarrow> ('n, 'c) session
     \<Rightarrow> (exn + string list) \<times> ('n, 'c) session" where
  "get_children_under_parent_id env children_list escape active
       parent_id query_contains_string query_is_string max_results s =
     (case get_client env s of
        (Inl x, s1) \<Rightarrow> (Inl x, s1)
      | (Inr c, s1) \<Rightarrow>
          if truthy query_contains_string \<and> truthy query_is_string
          then (Inl (bare_raise active), s1)
          else
            (let query =
                   (if truthy query_is_string
                    then Some (''title='' @ quote @ escape (the query_is_string) @ quote)
                    else if truthy query_contains_string
                    then Some (''title contains '' @ quote
                               @ escape (the query_contains_string) @ quote)
                    else None)
             in case children_list c query parent_id max_results (net s1) of
                  (Inl x, n2) \<Rightarrow> (Inl x, s1\<lparr>net := n2\<rparr>)
                | (Inr ids, n2) \<Rightarrow> (Inr ids, s1\<lparr>net := n2\<rparr>)))"

text \<open>
  A test double for the network: it counts the requests. Building the client is one
  request (the discovery document), a children listing another.
\<close>

definition counting_auth :: "(nat, unit) auth_env" where
  "counting_auth =
     \<lparr>get_credentials = (\<lambda>n. (Inr (), n)), build = (\<lambda>n. (Inr (), Suc n))\<rparr>"

definition counting_children ::
  "unit \<Rightarrow> string option \<Rightarrow> string \<Rightarrow> nat option \<Rightarrow> nat \<Rightarrow> (exn + string list) \<times> nat" where
  "counting_children c q folder_id max_results n = (Inr [], Suc n)"

section \<open>list_files\<close>

text \<open>\<^verbatim>\<open>sep.join(xs)\<close>.\<close>

fun join :: "string \<Rightarrow> string list \<Rightarrow> string" where
  "join sep [] = []"
| "join sep [x] = x"
| "join sep (x # y # ys) = x @ sep @ join sep (y # ys)"

text \<open>
  The list \<^verbatim>\<open>query_components\<close>. \<open>hidden_flags\<close> is
  \<^verbatim>\<open>Conf.get('hidden_flags_list_remote')\<close>, a list of field names (an empty or missing
  list adds nothing).
\<close>

definition query_components ::
  "(string \<Rightarrow> string) \<Rightarrow> string list \<Rightarrow> string option \<Rightarrow> string option \<Rightarrow> string option
     \<Rightarrow> string list" where
  "query_components escape hidden_flags query_contains_string query_is_string parent_id =
     (if truthy parent_id then [quote @ the parent_id @ quote @ '' in parents''] else [])
     @ (if truthy query_is_string
        then [''title='' @ quote @ escape (the query_is_string) @ quote]
        else if truthy query_contains_string
        then [''title contains '' @ quote @ escape (the query_contains_string) @ quote]
        else [])
     @ map (\<lambda>hidden_flag. hidden_flag @ '' = false'') hidden_flags"

definition list_files_query ::
  "(string \<Rightarrow> string) \<Rightarrow> string list \<Rightarrow> string option \<Rightarrow> string option \<Rightarrow> string option
     \<Rightarrow> string option" where
  "list_files_query escape hidden_flags query_contains_string query_is_string parent_id =
     (let cs = query_components escape hidden_flags query_contains_string query_is_string
                 parent_id
      in if cs = [] then None else Some (join '' and '' cs))"

record 'raw files_page =
  page_items :: "'raw list"
  page_next :: "string option"

text \<open>
  \<^verbatim>\<open>for entry_raw in result[u'items']\<close>: each item goes through
  \<^verbatim>\<open>NormalEntry('list_files', entry_raw)\<close>; the first failure ends the listing.
\<close>

fun normal_entries :: "(string \<Rightarrow> 'raw \<Rightarrow> exn + 'e) \<Rightarrow> 'raw list \<Rightarrow> exn + 'e list" where
  "normal_entries normal_entry [] = Inr []"
| "normal_entries normal_entry (raw # raws) =
     (case normal_entry ''list_files'' raw of
        Inl x \<Rightarrow> Inl x
      | Inr e \<Rightarrow>
          (case normal_entries normal_entry raws of
             Inl x \<Rightarrow> Inl x
           | Inr es \<Rightarrow> Inr (e # es)))"

text \<open>
  \<^verbatim>\<open>while 1\<close>: one request per pass, \<open>files_list c q page_token\<close> being
  \<^verbatim>\<open>client.files().list(q=query, pageToken=page_token).execute()\<close>. The loop ends at the
  first page without \<^verbatim>\<open>nextPageToken\<close>, or at an exception; a service that names a next
  page for ever keeps it running, and the result is \<open>None\<close>.
\<close>

partial_function (option) list_files_pages ::
  "('c \<Rightarrow> string option \<Rightarrow> string option \<Rightarrow> 'n \<Rightarrow> (exn + 'raw files_page) \<times> 'n)
     \<Rightarrow> (string \<Rightarrow> 'raw \<Rightarrow> exn + 'e) \<Rightarrow> 'c \<Rightarrow> string option \<Rightarrow> string option \<Rightarrow> 'e list \<Rightarrow> 'n
     \<Rightarrow> ((exn + 'e list) \<times> 'n) option" where
  "list_files_pages files_list normal_entry c query page_token entries n =
     (case files_list c query page_token n of
        (Inl x, n1) \<Rightarrow> Some (Inl x, n1)
      | (Inr result, n1) \<Rightarrow>
          (case normal_entries normal_entry (page_items result) of
             Inl x \<Rightarrow> Some (Inl x, n1)
           | Inr es \<Rightarrow>
               (case page_next result of
                  None \<Rightarrow> Some (Inr (entries @ es), n1)
                | Some token \<Rightarrow>
                    list_files_pages files_list normal_entry c query (Some token)
                      (entries @ es) n1)))"

definition list_files ::
  "('n, 'c) auth_env
     \<Rightarrow> ('c \<Rightarrow> string option \<Rightarrow> string option \<Rightarrow> 'n \<Rightarrow> (exn + 'raw files_page) \<times> 'n)
     \<Rightarrow> (string \<Rightarrow> 'raw \<Rightarrow> exn + 'e) \<Rightarrow> (string \<Rightarrow> string) \<Rightarrow> string list
     \<Rightarrow> string option \<Rightarrow> string option \<Rightarrow> string option \<Rightarrow> ('n, 'c) session
     \<Rightarrow> ((exn + 'e list) \<times> ('n, 'c) session) option" where
  "list_files env files_list normal_entry escape hidden_flags
       query_contains_string query_is_string parent_id s =
     (case get_client env s of
        (Inl x, s1) \<Rightarrow> Some (Inl x, s1)
      | (Inr c, s1) \<Rightarrow>
          (case list_files_pages files_list normal_entry c
                  (list_files_query escape hidden_flags query_contains_string query_is_string
                     parent_id)
                  None [] (net s1) of
             None \<Rightarrow> None
           | Some (r, n2) \<Rightarrow> Some (r, s1\<lparr>net := n2\<rparr>)))"

text \<open>
  A test double for the listing service: it serves the pages of \<open>remaining\<close> one per
  request, whatever the request says, and keeps the requests it got (query and page
  token). A request beyond the last page fails.
\<close>

record 'raw pager =
  remaining :: "'raw files_page list"
  requests :: "(string option \<times> string option) list"

definition paged_files_list ::
  "'c \<Rightarrow> string option \<Rightarrow> string option \<Rightarrow> 'raw pager \<Rightarrow> (exn + 'raw files_page) \<times> 'raw pager" where
  "paged_files_list c q page_token n =
     (case remaining n of
        [] \<Rightarrow> (Inl (HttpError None), n\<lparr>requests := requests n @ [(q, page_token)]\<rparr>)
      | p # ps \<Rightarrow> (Inr p, n\<lparr>remaining := ps, requests := requests n @ [(q, page_token)]\<rparr>))"

definition built_auth :: "('n, unit) auth_env" where
  "built_auth = \<lparr>get_credentials = (\<lambda>n. (Inr (), n)), build = (\<lambda>n. (Inr (), n))\<rparr>"

text \<open>Fixtures: three pages of sizes 2, 2 and 1.\<close>

definition three_pages :: "nat files_page list" where
  "three_pages =
     [\<lparr>page_items = [1, 2], page_next = Some ''t1''\<rparr>,
      \<lparr>page_items = [3, 4], page_next = Some ''t2''\<rparr>,
      \<lparr>page_items = [5], page_next = None\<rparr>]"

section \<open>download_to_local\<close>

text \<open>
  The attributes of a \<^verbatim>\<open>NormalEntry\<close> the manager reads. \<open>download_links\<close> maps an
  export MIME type to its URL (a dictionary, as an association list read with
  \<open>map_of\<close>); \<open>modified_date\<close> is the remote modification time in seconds.
\<close>

record normal_entry =
  entry_id :: string
  entry_mime_type :: string
  download_links :: "(string \<times> string) list"
  modified_date :: rat

text \<open>
  \<^verbatim>\<open>time.mktime(normalized_entry.modified_date.timetuple())\<close>: a time tuple has no
  fraction of a second, so the result is a whole number of seconds.
\<close>

definition gd_mtime_epoch :: "normal_entry \<Rightarrow> rat" where
  "gd_mtime_epoch e = of_int \<lfloor>modified_date e\<rfloor>"

text \<open>
  The local file system, as far as the download touches it: regular files with their
  bytes and times, directories, the clock (\<^verbatim>\<open>time.time()\<close>), and which paths the
  process may create or write.
\<close>

record local_file =
  data :: string
  st_mtime :: rat
  st_atime :: rat

record fsys =
  files :: "string \<rightharpoonup> local_file"
  dirs :: "string set"
  now :: rat
  writable :: "string \<Rightarrow> bool"

definition makedirs :: "string \<Rightarrow> fsys \<Rightarrow> exn + fsys" where
  "makedirs p fs = (if writable fs p then Inr (fs\<lparr>dirs := insert p (dirs fs)\<rparr>) else Inl OSError)"

text \<open>\<^verbatim>\<open>open(path, 'wb')\<close>: the file is created, or cut to length 0.\<close>

definition open_wb :: "string \<Rightarrow> fsys \<Rightarrow> exn + fsys" where
  "open_wb p fs =
     (if p \<in> dirs fs \<or> \<not> writable fs p then Inl IOError
      else Inr (fs\<lparr>files := (files fs)(p \<mapsto>
                  \<lparr>data = [], st_mtime = now fs,
                   st_atime = (case files fs p of None \<Rightarrow> now fs | Some f \<Rightarrow> st_atime f)\<rparr>)\<rparr>))"

text \<open>A write through the open handle appends.\<close>

definition write_bytes :: "string \<Rightarrow> string \<Rightarrow> fsys \<Rightarrow> fsys" where
  "write_bytes p bytes fs =
     (case files fs p of
        None \<Rightarrow> fs
      | Some f \<Rightarrow> fs\<lparr>files := (files fs)(p \<mapsto> f\<lparr>data := data f @ bytes, st_mtime := now fs\<rparr>)\<rparr>)"

text \<open>\<^verbatim>\<open>utime(path, (atime, mtime))\<close>.\<close>

definition utime :: "string \<Rightarrow> rat \<times> rat \<Rightarrow> fsys \<Rightarrow> exn + fsys" where
  "utime p atime_mtime fs =
     (case files fs p of
        None \<Rightarrow> Inl OSError
      | Some f \<Rightarrow>
          Inr (fs\<lparr>files := (files fs)(p \<mapsto> f\<lparr>st_mtime := snd atime_mtime, st_atime := fst atime_mtime\<rparr>)\<rparr>))"

definition export_message :: "normal_entry \<Rightarrow> string \<Rightarrow> string" where
  "export_message e mime_type =
     ''Entry with ID ['' @ entry_id e @ ''] can not be exported to type ['' @ mime_type
     @ '']. The available types are: '' @ join '', '' (map fst (download_links e))"

text \<open>The variable \<^verbatim>\<open>use_cache\<close> after the test of the local copy.\<close>

definition use_cache :: "bool \<Rightarrow> fsys \<Rightarrow> string \<Rightarrow> rat \<Rightarrow> bool" where
  "use_cache allow_cache fs output_file_path mtime =
     (allow_cache \<and>
      (case files fs output_file_path of None \<Rightarrow> False | Some f \<Rightarrow> mtime = st_mtime f))"

text \<open>
  Modelled from the spec: \<^verbatim>\<open>ChunkedDownload.next_chunk\<close>
  (\<^verbatim>\<open>gdrivefs/gdtool/chunked_download.py\<close> is not among the sources). By the spec it
  requests the next chunk over the authorized transport and appends it to the target
  file; \<open>next_chunk url\<close> gives the bytes it appended, \<^verbatim>\<open>done\<close> and \<^verbatim>\<open>total_size\<close>, or
  the exception it raised.

  \<^verbatim>\<open>while 1\<close>: the loop ends when \<^verbatim>\<open>done is True\<close> or at an exception; with a downloader
  that never reports \<^verbatim>\<open>done\<close> it runs for ever, and the result is \<open>None\<close>.
\<close>

partial_function (option) download_chunks ::
  "(string \<Rightarrow> 'n \<Rightarrow> (exn + string \<times> bool \<times> nat) \<times> 'n) \<Rightarrow> string \<Rightarrow> string \<Rightarrow> fsys \<Rightarrow> 'n
     \<Rightarrow> ((exn + nat) \<times> fsys \<times> 'n) option" where
  "download_chunks next_chunk url output_file_path fs n =
     (case next_chunk url n of
        (Inl x, n1) \<Rightarrow> Some (Inl x, fs, n1)
      | (Inr (bytes, done, total_size), n1) \<Rightarrow>
          if done then Some (Inr total_size, write_bytes output_file_path bytes fs, n1)
          else download_chunks next_chunk url output_file_path
                 (write_bytes output_file_path bytes fs) n1)"

text \<open>
  \<open>temp_path\<close> is \<^verbatim>\<open>Conf.get('file_download_temp_path')\<close>. The result is the pair
  \<^verbatim>\<open>(size, changed)\<close>.
\<close>

definition download_to_local ::
  "('n, 'c) auth_env \<Rightarrow> (string \<Rightarrow> 'n \<Rightarrow> (exn + string \<times> bool \<times> nat) \<times> 'n) \<Rightarrow> string
     \<Rightarrow> string \<Rightarrow> normal_entry \<Rightarrow> string \<Rightarrow> bool \<Rightarrow> fsys \<Rightarrow> ('n, 'c) session
     \<Rightarrow> ((exn + nat \<times> bool) \<times> fsys \<times> ('n, 'c) session) option" where
  "download_to_local env next_chunk temp_path
       output_file_path normalized_entry mime_type allow_cache fs s =
     (if mime_type \<noteq> entry_mime_type normalized_entry
         \<and> map_of (download_links normalized_entry) mime_type = None
      then Some (Inl (ExportFormatError (export_message normalized_entry mime_type)), fs, s)
      else
        (case (if temp_path \<in> dirs fs then Inr fs else makedirs temp_path fs) of
           Inl x \<Rightarrow> Some (Inl x, fs, s)
         | Inr fs1 \<Rightarrow>
             if use_cache allow_cache fs1 output_file_path (gd_mtime_epoch normalized_entry)
             then Some (Inr (length (data (the (files fs1 output_file_path))), False), fs1, s)
             else
               (case get_authed_http env s of
                  (Inl x, s1) \<Rightarrow> Some (Inl x, fs1, s1)
                | (Inr _, s1) \<Rightarrow>
                    (case map_of (download_links normalized_entry) mime_type of
                       None \<Rightarrow> Some (Inl KeyError, fs1, s1)
                     | Some url \<Rightarrow>
                         (case open_wb output_file_path fs1 of
                            Inl x \<Rightarrow> Some (Inl x, fs1, s1)
                          | Inr fs2 \<Rightarrow>
                              (case download_chunks next_chunk url output_file_path fs2
                                      (net s1) of
                                 None \<Rightarrow> None
                               | Some (Inl x, fs3, n3) \<Rightarrow> Some (Inl x, fs3, s1\<lparr>net := n3\<rparr>)
                               | Some (Inr total_size, fs3, n3) \<Rightarrow>
                                   (case utime output_file_path
                                           (now fs3, gd_mtime_epoch normalized_entry) fs3 of
                                      Inl x \<Rightarrow> Some (Inl x, fs3, s1\<lparr>net := n3\<rparr>)
                                    | Inr fs4 \<Rightarrow>
                                        Some (Inr (total_size, True), fs4,
                                              s1\<lparr>net := n3\<rparr>))))))))"

text \<open>
  A test double for the downloader: the outcomes of its calls of \<^verbatim>\<open>next_chunk\<close>, in
  order, are the state; a call beyond the last fails.
\<close>

definition scripted_next_chunk ::
  "string \<Rightarrow> (exn + string \<times> bool \<times> nat) list
     \<Rightarrow> (exn + string \<times> bool \<times> nat) \<times> (exn + string \<times> bool \<times> nat) list" where
  "scripted_next_chunk url n =
     (case n of [] \<Rightarrow> (Inl (OtherError ''no more chunks''), []) | r # rs \<Rightarrow> (r, rs))"

section \<open>Creating and updating entries\<close>

text \<open>
  An optional argument is \<open>None\<close> when the caller leaves it out (or passes \<^verbatim>\<open>None\<close>, the
  default of all but \<^verbatim>\<open>is_hidden\<close>); \<open>default d a\<close> is the value the function body sees
  for an argument with the default \<open>d\<close>.
\<close>

definition default :: "'a \<Rightarrow> 'a option \<Rightarrow> 'a" where
  "default d a = (case a of None \<Rightarrow> d | Some v \<Rightarrow> v)"

text \<open>
  The dictionary \<^verbatim>\<open>body\<close> of \<^verbatim>\<open>update_entry\<close>. \<open>now_phrase\<close> is what
  \<^verbatim>\<open>get_flat_normal_fs_time_from_dt()\<close> returns, the current time as a string;
  \<open>is_hidden\<close> has the default \<^verbatim>\<open>False\<close>.
\<close>

definition update_entry_body ::
  "normal_entry \<Rightarrow> string \<Rightarrow> string option \<Rightarrow> string option \<Rightarrow> pyval option \<Rightarrow> string option
     \<Rightarrow> string option \<Rightarrow> pyval option \<Rightarrow> string option \<Rightarrow> (string \<rightharpoonup> pyval)" where
  "update_entry_body normalized_entry now_phrase filename mime_type parents
       modified_datetime accessed_datetime is_hidden description =
     (let mime_type' = (if truthy mime_type then the mime_type
                        else entry_mime_type normalized_entry);
          body0 = [''mimeType'' \<mapsto> PStr mime_type'];
          body1 = (case filename of None \<Rightarrow> body0 | Some t \<Rightarrow> body0(''title'' \<mapsto> PStr t));
          body2 = (case parents of None \<Rightarrow> body1 | Some ps \<Rightarrow> body1(''parents'' \<mapsto> ps));
          body3 = (if default (PBool False) is_hidden \<noteq> PNone
                   then body2(''labels'' \<mapsto>
                          PDict [(''hidden'', default (PBool False) is_hidden)])
                   else body2);
          body4 = (case description of
                     None \<Rightarrow> body3
                   | Some d \<Rightarrow> body3(''description'' \<mapsto> PStr d));
          body5 = (case modified_datetime of
                     Some m \<Rightarrow> body4(''modifiedDate'' \<mapsto> PStr m)
                   | None \<Rightarrow> body4(''modifiedDate'' \<mapsto> PStr now_phrase))
      in case accessed_datetime of
           Some a \<Rightarrow> body5(''lastViewedByMeDate'' \<mapsto> PStr a)
         | None \<Rightarrow> body5)"

text \<open>The keyword arguments of \<^verbatim>\<open>client.files().update\<close>.\<close>

record update_args =
  arg_fileId :: string
  arg_body :: "string \<rightharpoonup> pyval"
  arg_setModifiedDate :: bool
  arg_updateViewedDate :: nat
  arg_media_body :: "(string \<times> string) option"

definition update_entry_args ::
  "normal_entry \<Rightarrow> string \<Rightarrow> string option \<Rightarrow> string option \<Rightarrow> string option \<Rightarrow> pyval option
     \<Rightarrow> string option \<Rightarrow> string option \<Rightarrow> pyval option \<Rightarrow> string option \<Rightarrow> update_args" where
  "update_entry_args normalized_entry now_phrase filename data_filepath mime_type parents
       modified_datetime accessed_datetime is_hidden description =
     \<lparr>arg_fileId = entry_id normalized_entry,
      arg_body = update_entry_body normalized_entry now_phrase filename mime_type parents
                   modified_datetime accessed_datetime is_hidden description,
      arg_setModifiedDate = True,
      arg_updateViewedDate = (if accessed_datetime \<noteq> None then 1 else 0),
      arg_media_body =
        (if truthy data_filepath
         then Some (the data_filepath,
                    if truthy mime_type then the mime_type
                    else entry_mime_type normalized_entry)
         else None)\<rparr>"

text \<open>
  \<open>update_request c args\<close> is \<^verbatim>\<open>client.files().update(**args).execute()\<close>,
  \<open>normal_entry\<close> the constructor \<^verbatim>\<open>NormalEntry\<close>.
\<close>

definition update_entry ::
  "('n, 'c) auth_env \<Rightarrow> ('c \<Rightarrow> update_args \<Rightarrow> 'n \<Rightarrow> (exn + 'raw) \<times> 'n)
     \<Rightarrow> (string \<Rightarrow> 'raw \<Rightarrow> exn + 'e) \<Rightarrow> normal_entry \<Rightarrow> string \<Rightarrow> string option
     \<Rightarrow> string option \<Rightarrow> string option \<Rightarrow> pyval option \<Rightarrow> string option \<Rightarrow> string option
     \<Rightarrow> pyval option \<Rightarrow> string option \<Rightarrow> ('n, 'c) session
     \<Rightarrow> (exn + 'e) \<times> ('n, 'c) session" where
  "update_entry env update_request normal_entry normalized_entry now_phrase filename
       data_filepath mime_type parents modified_datetime accessed_datetime is_hidden
       description s =
     (case get_client env s of
        (Inl x, s1) \<Rightarrow> (Inl x, s1)
      | (Inr c, s1) \<Rightarrow>
          (case update_request c
                  (update_entry_args normalized_entry now_phrase filename data_filepath
                     mime_type parents modified_datetime accessed_datetime is_hidden
                     description)
                  (net s1) of
             (Inl x, n2) \<Rightarrow> (Inl x, s1\<lparr>net := n2\<rparr>)
           | (Inr result, n2) \<Rightarrow> (normal_entry ''update_entry'' result, s1\<lparr>net := n2\<rparr>)))"

text \<open>
  The dictionary \<^verbatim>\<open>body\<close> of \<^verbatim>\<open>__insert_entry\<close>: \<^verbatim>\<open>parents\<close> has the default
  \<^verbatim>\<open>[]\<close>, both timestamps the default \<open>now_phrase\<close>, \<^verbatim>\<open>is_hidden\<close> the default
  \<^verbatim>\<open>False\<close>, and \<^verbatim>\<open>description\<close> goes in as it is, \<^verbatim>\<open>None\<close> included.
\<close>

definition insert_entry_body ::
  "string \<Rightarrow> string \<Rightarrow> string \<Rightarrow> string list option \<Rightarrow> string option \<Rightarrow> string option
     \<Rightarrow> pyval option \<Rightarrow> string option \<Rightarrow> (string \<rightharpoonup> pyval)" where
  "insert_entry_body now_phrase filename mime_type parents modified_datetime
       accessed_datetime is_hidden description =
     [''title'' \<mapsto> PStr filename,
      ''parents'' \<mapsto> PList (map (\<lambda>parent. PDict [(''id'', PStr parent)]) (default [] parents)),
      ''mimeType'' \<mapsto> PStr mime_type,
      ''labels'' \<mapsto> PDict [(''hidden'', default (PBool False) is_hidden)],
      ''description'' \<mapsto> (case description of None \<Rightarrow> PNone | Some d \<Rightarrow> PStr d),
      ''modifiedDate'' \<mapsto> PStr (default now_phrase modified_datetime),
      ''lastViewedByMeDate'' \<mapsto> PStr (default now_phrase accessed_datetime)]"

record insert_args =
  ins_body :: "string \<rightharpoonup> pyval"
  ins_media_body :: "(string \<times> string) option"

definition insert_entry_args ::
  "string \<Rightarrow> string \<Rightarrow> string \<Rightarrow> string list option \<Rightarrow> string option \<Rightarrow> string option
     \<Rightarrow> string option \<Rightarrow> pyval option \<Rightarrow> string option \<Rightarrow> insert_args" where
  "insert_entry_args now_phrase filename mime_type parents data_filepath modified_datetime
       accessed_datetime is_hidden description =
     \<lparr>ins_body = insert_entry_body now_phrase filename mime_type parents modified_datetime
                  accessed_datetime is_hidden description,
      ins_media_body =
        (if truthy data_filepath then Some (the data_filepath, mime_type) else None)\<rparr>"

definition insert_entry ::
  "('n, 'c) auth_env \<Rightarrow> ('c \<Rightarrow> insert_args \<Rightarrow> 'n \<Rightarrow> (exn + 'raw) \<times> 'n)
     \<Rightarrow> (string \<Rightarrow> 'raw \<Rightarrow> exn + 'e) \<Rightarrow> string \<Rightarrow> string \<Rightarrow> string \<Rightarrow> string list option
     \<Rightarrow> string option \<Rightarrow> string option \<Rightarrow> string option \<Rightarrow> pyval option \<Rightarrow> string option
     \<Rightarrow> ('n, 'c) session \<Rightarrow> (exn + 'e) \<times> ('n, 'c) session" where
  "insert_entry env insert_request normal_entry now_phrase filename mime_type parents
       data_filepath modified_datetime accessed_datetime is_hidden description s =
     (case get_client env s of
        (Inl x, s1) \<Rightarrow> (Inl x, s1)
      | (Inr c, s1) \<Rightarrow>
          (case insert_request c
                  (insert_entry_args now_phrase filename mime_type parents data_filepath
                     modified_datetime accessed_datetime is_hidden description)
                  (net s1) of
             (Inl x, n2) \<Rightarrow> (Inl x, s1\<lparr>net := n2\<rparr>)
           | (Inr result, n2) \<Rightarrow> (normal_entry ''insert_entry'' result, s1\<lparr>net := n2\<rparr>)))"

text \<open>Fixtures for the download: a cached copy of an entry, and the entry.\<close>

definition cached_fs :: fsys where
  "cached_fs =
     \<lparr>files = [''/tmp/gd/x'' \<mapsto> \<lparr>data = ''old'', st_mtime = 100, st_atime = 7\<rparr>],
      dirs = {''/tmp/gd''}, now = 500, writable = (\<lambda>p. True)\<rparr>"

definition pdf_entry :: normal_entry where
  "pdf_entry =
     \<lparr>entry_id = ''id1'', entry_mime_type = ''application/pdf'',
      download_links = [(''application/pdf'', ''http://u'')], modified_date = 100\<rparr>"


section \<open>Properties of the retrying proxy\<close>

lemma handle_exn_transient:
  "transient e \<Longrightarrow> handle_exn env auto_refresh n error e w = Retry error (backoff env n w)"
  by (cases e) (simp_all add: transient_def handle_exn_def)

text \<open>
  Whatever the world does, a method that raises a transient error on every invocation
  makes the proxy return \<^verbatim>\<open>None\<close>: no exception leaves the loop.
\<close>

lemma proxied_loop_transient:
  assumes "\<And>w. \<exists>e w1. method env w = (Inl e, w1) \<and> transient e"
  shows "fst (proxied_loop env auto_refresh n error w) = Inr None"
proof (induction "5 - n" arbitrary: n w)
  case 0
  then show ?case by simp
next
  case (Suc k)
  then have lt: "\<not> 5 \<le> n" and k: "k = 5 - Suc n" by simp_all
  obtain e w1 where m: "method env w = (Inl e, w1)" and t: "transient e"
    using assms by blast
  have h: "handle_exn env auto_refresh n error e w1 = Retry error (backoff env n w1)"
    using t by (rule handle_exn_transient)
  have "fst (proxied_loop env auto_refresh (Suc n) error (backoff env n w1)) = Inr None"
    using Suc.hyps(1) [OF k] .
  then show ?case
    using lt m h by (subst proxied_loop.simps) simp
qed

lemma handle_exn_uncaught:
  "uncaught e \<Longrightarrow> handle_exn env auto_refresh n error e w = Reraise e w"
  by (cases e) (simp_all add: uncaught_def handle_exn_def)

text \<open>An exception of a class no clause names leaves the proxy at once, as it is.\<close>

lemma proxied_method_uncaught:
  assumes "method env w = (Inl e, w1)" and "uncaught e"
  shows "proxied_method env auto_refresh w = (Inl e, w1)"
  using assms by (simp add: proxied_method_def handle_exn_uncaught)

lemma proxied_method_returns:
  assumes "method env w = (Inr v, w1)"
  shows "proxied_method env auto_refresh w = (Inr (Some v), w1)"
  using assms by (simp add: proxied_method_def)

text \<open>With auto-refresh off, an authorization fault of the first attempt propagates.\<close>

lemma proxied_method_no_refresh:
  assumes "method env w = (Inl AuthorizationFaultError, w1)"
  shows "proxied_method env False w = (Inl AuthorizationFaultError, w1)"
  using assms by (simp add: proxied_method_def handle_exn_def)

text \<open>
  Authorization faults on the first two attempts: one refresh between them, and the
  second fault propagates.
\<close>

lemma proxied_method_two_faults:
  assumes "method env w = (Inl AuthorizationFaultError, w1)"
    and "check_credential_state env w1 = (Inr (), w2)"
    and "method env w2 = (Inl AuthorizationFaultError, w3)"
  shows "proxied_method env True w = (Inl AuthorizationFaultError, w3)"
  using assms by (simp add: proxied_method_def handle_exn_def)

text \<open>
  C1. A method that raises \<^verbatim>\<open>BadStatusLine\<close> on every attempt is invoked five times,
  each failure followed by a sleep of \<open>2 ^ n\<close> seconds (jitter 0), the fifth too; then
  the loop ends and the proxy returns \<^verbatim>\<open>None\<close>. The last error does not reach the
  caller.
\<close>

theorem proxied_method_exhausted_returns_None:
  "proxied_method
     (scripted (\<lambda>k. Inl (BadStatusLine [])) (\<lambda>k. Inr ()) (\<lambda>k. 0) :: (sim, unit) proxy_env)
     True sim0
   = (Inr None, \<lparr>invocations = 5, sleeps = [1, 2, 4, 8, 16], refreshes = 0\<rparr>)"
  by (simp add: proxied_method_def scripted_def sim0_def handle_exn_def backoff_def)

text \<open>
  C3. The test for "already refreshed" is \<open>n = 1\<close>, the index of the attempt. A first
  authorization fault that comes on the second attempt (after a transient error on the
  first) propagates with no refresh and no retry; and when a transient error separates
  two authorization faults (attempts 0 and 2), the credentials are refreshed twice in
  one call.
\<close>

theorem proxied_method_refresh_by_attempt_index:
  "proxied_method
     (scripted (\<lambda>k. if k = 0 then Inl (BadStatusLine []) else Inl AuthorizationFaultError)
        (\<lambda>k. Inr ()) (\<lambda>k. 0) :: (sim, unit) proxy_env)
     True sim0
   = (Inl AuthorizationFaultError, \<lparr>invocations = 2, sleeps = [1], refreshes = 0\<rparr>)
   \<and>
   proxied_method
     (scripted (\<lambda>k. if k = 0 \<or> k = 2 then Inl AuthorizationFaultError
                     else if k = 1 then Inl (BadStatusLine []) else Inr ())
        (\<lambda>k. Inr ()) (\<lambda>k. 0) :: (sim, unit) proxy_env)
     True sim0
   = (Inr (Some ()), \<lparr>invocations = 4, sleeps = [2], refreshes = 2\<rparr>)"
  by (simp add: proxied_method_def scripted_def sim0_def handle_exn_def backoff_def)

text \<open>
  C8. An \<^verbatim>\<open>HttpError\<close> whose body is not JSON, on the first attempt: the handler
  reads the unbound local \<^verbatim>\<open>error\<close>, and the caller gets \<^verbatim>\<open>UnboundLocalError\<close> in
  place of the \<^verbatim>\<open>HttpError\<close>. The same failure after a rate-limit error of an earlier
  attempt is judged by that earlier body, so it is slept on and retried.
\<close>

theorem proxied_method_non_json_http_error:
  "proxied_method
     (scripted (\<lambda>k. Inl (HttpError None)) (\<lambda>k. Inr ()) (\<lambda>k. 0) :: (sim, unit) proxy_env)
     True sim0
   = (Inl UnboundLocalError, \<lparr>invocations = 1, sleeps = [], refreshes = 0\<rparr>)
   \<and>
   proxied_method
     (scripted (\<lambda>k. if k = 0 then Inl (HttpError (Some rate_limit_body))
                     else if k = 1 then Inl (HttpError None) else Inr ())
        (\<lambda>k. Inr ()) (\<lambda>k. 0) :: (sim, unit) proxy_env)
     True sim0
   = (Inr (Some ()), \<lparr>invocations = 3, sleeps = [1, 2], refreshes = 0\<rparr>)"
  by (simp add: proxied_method_def scripted_def sim0_def handle_exn_def backoff_def
      rate_limited_def rate_limit_body_def py_get_def py_item0_def)

section \<open>Properties of list_changes\<close>

lemma list_changes_items_ordered:
  "list_changes_items ne its prev acc = Inr r \<Longrightarrow> ordered_from prev (map change_id its)"
proof (induction its arbitrary: prev acc)
  case Nil
  then show ?case by simp
next
  case (Cons a its)
  then show ?case
    by (cases prev) (auto split: if_splits sum.splits option.splits)
qed

lemma ordered_from_nonzero:
  "list_all (\<lambda>i. i \<noteq> 0) ids \<Longrightarrow> (case prev of None \<Rightarrow> True | Some l \<Rightarrow> l \<noteq> 0) \<Longrightarrow>
   ordered_from prev ids
   = (sorted_wrt (<) ids \<and> (case prev of None \<Rightarrow> True | Some l \<Rightarrow> list_all (\<lambda>i. l < i) ids))"
proof (induction ids arbitrary: prev)
  case Nil
  then show ?case by (simp split: option.splits)
next
  case (Cons a ids)
  then show ?case by (cases prev) (auto simp: list_all_iff)
qed

text \<open>
  On a page without the change id 0, a listing that returns has seen strictly increasing
  change ids.
\<close>

lemma list_changes_items_increasing:
  assumes "list_changes_items ne its None [] = Inr r"
    and "list_all (\<lambda>i. i \<noteq> 0) (map change_id its)"
  shows "sorted_wrt (<) (map change_id its)"
  using list_changes_items_ordered [OF assms(1)] ordered_from_nonzero [OF assms(2), of None]
  by simp

text \<open>
  C2. The test of the order is skipped when the previous change id is 0, which Python
  takes for false as it does \<^verbatim>\<open>None\<close>. A page whose two items both have change id 0 is
  accepted: no exception, and the second item replaces the first under the key 0.
\<close>

theorem list_changes_accepts_repeated_zero:
  "list_changes counting_auth (serve_changes zero_page) (\<lambda>source raw. Inr raw) None None
     \<lparr>client = Some (), net = 0\<rparr>
   = (Inr (0, None, [(0, ''f'', True, None)]), \<lparr>client = Some (), net = 1\<rparr>)"
  by (simp add: list_changes_def get_client_def serve_changes_def zero_page_def
      deleted_item_def)

section \<open>Properties of get_children_under_parent_id\<close>

lemma get_client_memoized: "client s = Some c \<Longrightarrow> get_client env s = (Inr c, s)"
  by (simp add: get_client_def)

text \<open>
  C6, as the code has it. With both query strings non-empty the call fails; the client
  is fetched first, so the session the failure leaves is the one \<^verbatim>\<open>get_client\<close> leaves,
  whatever listing request the client would serve; with a client already built nothing
  outside the module is touched at all.
\<close>

theorem get_children_both_queries_fails:
  assumes "truthy query_contains_string" and "truthy query_is_string"
  shows "(\<exists>e. fst (get_children_under_parent_id env children_list escape active parent_id
                     query_contains_string query_is_string max_results s) = Inl e)
       \<and> snd (get_children_under_parent_id env children_list escape active parent_id
                 query_contains_string query_is_string max_results s)
         = snd (get_client env s)
       \<and> (client s \<noteq> None \<longrightarrow>
            get_children_under_parent_id env children_list escape active parent_id
              query_contains_string query_is_string max_results s
            = (Inl (bare_raise active), s))"
  using assms
  by (auto simp: get_children_under_parent_id_def get_client_memoized
      split: prod.splits sum.splits)

theorem get_children_both_queries_fails_witness:
  "truthy (Some ''a'') \<and> truthy (Some ''b'')
   \<and> get_children_under_parent_id counting_auth counting_children id None ''root''
       (Some ''a'') (Some ''b'') None \<lparr>client = Some (), net = 0\<rparr>
     = (Inl TypeError, \<lparr>client = Some (), net = 0\<rparr>)"
  using get_children_both_queries_fails [of "Some ''a''" "Some ''b''" counting_auth
      counting_children id None "''root''" None "\<lparr>client = Some (), net = 0\<rparr>"]
  by (simp add: truthy_def bare_raise_def)

text \<open>
  C6 as stated fails on a first call: no client is built yet, the manager builds one
  (a request for the discovery document) and only then rejects the arguments.
\<close>

theorem get_children_builds_client_first:
  "get_children_under_parent_id counting_auth counting_children id None ''root''
     (Some ''a'') (Some ''b'') None \<lparr>client = None, net = 0\<rparr>
   = (Inl TypeError, \<lparr>client = Some (), net = 1\<rparr>)"
  by (simp add: get_children_under_parent_id_def get_client_def get_authed_http_def
      counting_auth_def truthy_def bare_raise_def)

section \<open>Properties of list_files\<close>

lemma normal_entries_append:
  "normal_entries ne (xs @ ys) =
     (case normal_entries ne xs of
        Inl x \<Rightarrow> Inl x
      | Inr es \<Rightarrow> (case normal_entries ne ys of Inl x \<Rightarrow> Inl x | Inr fs \<Rightarrow> Inr (es @ fs)))"
  by (induction xs) (auto split: sum.splits)

lemma normal_entries_map:
  "list_all (\<lambda>raw. ne ''list_files'' raw = Inr (f raw)) xs \<Longrightarrow> normal_entries ne xs = Inr (map f xs)"
  by (induction xs) auto

text \<open>
  The loop against a service with the pages \<open>ps\<close>, each naming a next page, then a page
  \<open>final\<close> that names none: one request per page, the first with the token the loop
  starts with, each later one with the token of the page before it, and nothing of
  \<open>rest\<close> is asked for.
\<close>

lemma list_files_pages_served:
  assumes "list_all (\<lambda>p. page_next p \<noteq> None) ps"
    and "page_next final = None"
    and "normal_entries ne (concat (map page_items (ps @ [final]))) = Inr es"
  shows "list_files_pages paged_files_list ne c q token entries
           \<lparr>remaining = ps @ final # rest, requests = rq\<rparr>
         = Some (Inr (entries @ es),
                 \<lparr>remaining = rest,
                  requests = rq @ (q, token) # map (\<lambda>p. (q, page_next p)) ps\<rparr>)"
  using assms
proof (induction ps arbitrary: token entries rq es)
  case Nil
  then show ?case
    by (subst list_files_pages.simps) (simp add: paged_files_list_def)
next
  case (Cons p ps)
  from Cons.prems(1) obtain t where t: "page_next p = Some t"
    and all: "list_all (\<lambda>p. page_next p \<noteq> None) ps"
    by auto
  from Cons.prems(3) obtain es1 es2 where
    e1: "normal_entries ne (page_items p) = Inr es1" and
    e2: "normal_entries ne (concat (map page_items (ps @ [final]))) = Inr es2" and
    es: "es = es1 @ es2"
    by (auto simp: normal_entries_append split: sum.splits)
  have "list_files_pages paged_files_list ne c q (Some t) (entries @ es1)
           \<lparr>remaining = ps @ final # rest, requests = rq @ [(q, token)]\<rparr>
         = Some (Inr ((entries @ es1) @ es2),
                 \<lparr>remaining = rest,
                  requests = (rq @ [(q, token)]) @ (q, Some t)
                             # map (\<lambda>p. (q, page_next p)) ps\<rparr>)"
    by (rule Cons.IH [OF all Cons.prems(2) e2])
  then show ?case
    by (subst list_files_pages.simps) (simp add: paged_files_list_def t e1 es)
qed

text \<open>
  C5. Against a service that holds the pages \<open>ps @ [final]\<close> (and possibly more), every
  page of \<open>ps\<close> with a continuation token and \<open>final\<close> without one, \<^verbatim>\<open>list_files\<close>
  returns: its result is the normalized items of these pages, in page order; it sends one
  request per page, the first without a token and each later one with the token of the
  page before; it asks for nothing after \<open>final\<close>; every request carries the same
  query, whose components end with one clause \<^verbatim>\<open>flag = false\<close> per configured hidden
  flag.
\<close>

theorem list_files_returns_all_pages:
  assumes "get_client env s = (Inr c, s1)"
    and "net s1 = \<lparr>remaining = ps @ final # rest, requests = []\<rparr>"
    and "list_all (\<lambda>p. page_next p \<noteq> None) ps"
    and "page_next final = None"
    and "list_all (\<lambda>raw. normal_entry ''list_files'' raw = Inr (f raw))
           (concat (map page_items (ps @ [final])))"
  shows "list_files env paged_files_list normal_entry escape hidden_flags
           query_contains_string query_is_string parent_id s
         = Some (Inr (map f (concat (map page_items (ps @ [final])))),
                 s1\<lparr>net := \<lparr>remaining = rest,
                            requests =
                              map (Pair (list_files_query escape hidden_flags
                                           query_contains_string query_is_string parent_id))
                                (None # map page_next ps)\<rparr>\<rparr>)
       \<and> query_components escape hidden_flags query_contains_string query_is_string parent_id
         = query_components escape [] query_contains_string query_is_string parent_id
           @ map (\<lambda>hidden_flag. hidden_flag @ '' = false'') hidden_flags
       \<and> (hidden_flags \<noteq> [] \<longrightarrow>
            list_files_query escape hidden_flags query_contains_string query_is_string parent_id
            = Some (join '' and ''
                (query_components escape hidden_flags query_contains_string query_is_string
                   parent_id)))"
proof (intro conjI)
  have "normal_entries normal_entry (concat (map page_items (ps @ [final])))
        = Inr (map f (concat (map page_items (ps @ [final]))))"
    using assms(5) by (rule normal_entries_map)
  from list_files_pages_served [OF assms(3) assms(4) this, of c _ None "[]" rest "[]"]
  show "list_files env paged_files_list normal_entry escape hidden_flags
           query_contains_string query_is_string parent_id s
         = Some (Inr (map f (concat (map page_items (ps @ [final])))),
                 s1\<lparr>net := \<lparr>remaining = rest,
                            requests =
                              map (Pair (list_files_query escape hidden_flags
                                           query_contains_string query_is_string parent_id))
                                (None # map page_next ps)\<rparr>\<rparr>)"
    by (simp add: list_files_def assms(1) assms(2) comp_def)
next
  show "query_components escape hidden_flags query_contains_string query_is_string parent_id
         = query_components escape [] query_contains_string query_is_string parent_id
           @ map (\<lambda>hidden_flag. hidden_flag @ '' = false'') hidden_flags"
    by (simp add: query_components_def)
next
  show "hidden_flags \<noteq> [] \<longrightarrow>
            list_files_query escape hidden_flags query_contains_string query_is_string parent_id
            = Some (join '' and ''
                (query_components escape hidden_flags query_contains_string query_is_string
                   parent_id))"
    by (simp add: list_files_query_def query_components_def Let_def)
qed

theorem list_files_returns_all_pages_witness:
  "list_files built_auth paged_files_list (\<lambda>source raw. Inr raw) id [''trashed''] None None
     (Some ''root'') \<lparr>client = Some (), net = \<lparr>remaining = three_pages, requests = []\<rparr>\<rparr>
   = Some (Inr [1, 2, 3, 4, 5],
           \<lparr>client = Some (),
            net = \<lparr>remaining = [],
                   requests =
                     [(Some (quote @ ''root'' @ quote @ '' in parents and trashed = false''),
                       None),
                      (Some (quote @ ''root'' @ quote @ '' in parents and trashed = false''),
                       Some ''t1''),
                      (Some (quote @ ''root'' @ quote @ '' in parents and trashed = false''),
                       Some ''t2'')]\<rparr>\<rparr>)"
  using list_files_returns_all_pages [where env = built_auth
      and s = "\<lparr>client = Some (), net = \<lparr>remaining = three_pages, requests = []\<rparr>\<rparr>"
      and c = "()"
      and ?s1.0 = "\<lparr>client = Some (), net = \<lparr>remaining = three_pages, requests = []\<rparr>\<rparr>"
      and ps = "[\<lparr>page_items = [1, 2], page_next = Some ''t1''\<rparr>,
                 \<lparr>page_items = [3, 4], page_next = Some ''t2''\<rparr>]"
      and final = "\<lparr>page_items = [5], page_next = None\<rparr>"
      and rest = "[]"
      and normal_entry = "\<lambda>source raw. Inr raw"
      and f = "\<lambda>raw. raw"
      and escape = id and hidden_flags = "[''trashed'']"
      and query_contains_string = None and query_is_string = None
      and parent_id = "Some ''root''"]
  by (simp add: get_client_def three_pages_def list_files_query_def query_components_def
      truthy_def)

section \<open>Properties of download_to_local\<close>

lemma write_bytes_keeps_file:
  "files fs p \<noteq> None \<Longrightarrow> files (write_bytes p bytes fs) p \<noteq> None"
  by (auto simp: write_bytes_def)

text \<open>
  A transfer that comes back leaves a file at the target path if there was one when it
  started: the loop only appends.
\<close>

lemma download_chunks_keeps_file:
  assumes "download_chunks next_chunk url path fs n = Some y"
  shows "files fs path \<noteq> None \<longrightarrow> files (fst (snd y)) path \<noteq> None"
proof (rule download_chunks.raw_induct
    [where P = "\<lambda>nc url path fs n y. files fs path \<noteq> None \<longrightarrow> files (fst (snd y)) path \<noteq> None",
      OF _ assms])
  fix dc :: "(string \<Rightarrow> 'a \<Rightarrow> (exn + string \<times> bool \<times> nat) \<times> 'a) \<Rightarrow> string \<Rightarrow> string \<Rightarrow> fsys \<Rightarrow> 'a
               \<Rightarrow> ((exn + nat) \<times> fsys \<times> 'a) option"
    and nc url path fs n y
  assume IH: "\<And>nc url path fs n y. dc nc url path fs n = Some y \<Longrightarrow>
                files fs path \<noteq> None \<longrightarrow> files (fst (snd y)) path \<noteq> None"
    and step: "(case nc url n of
                  (Inl x, n1) \<Rightarrow> Some (Inl x, fs, n1)
                | (Inr (bytes, done, total_size), n1) \<Rightarrow>
                    if done then Some (Inr total_size, write_bytes path bytes fs, n1)
                    else dc nc url path (write_bytes path bytes fs) n1) = Some y"
  show "files fs path \<noteq> None \<longrightarrow> files (fst (snd y)) path \<noteq> None"
  proof
    assume ex: "files fs path \<noteq> None"
    obtain r n1 where nc: "nc url n = (r, n1)" by (cases "nc url n")
    show "files (fst (snd y)) path \<noteq> None"
    proof (cases r)
      case (Inl x)
      with step nc ex show ?thesis by auto
    next
      case (Inr c)
      obtain bytes d t where c: "c = (bytes, d, t)" by (cases c)
      show ?thesis
      proof (cases d)
        case True
        with step nc Inr c have "y = (Inr t, write_bytes path bytes fs, n1)" by simp
        with write_bytes_keeps_file [OF ex] show ?thesis by simp
      next
        case False
        with step nc Inr c have "dc nc url path (write_bytes path bytes fs) n1 = Some y"
          by simp
        from IH [OF this] write_bytes_keeps_file [OF ex] show ?thesis by blast
      qed
    qed
  qed
qed

lemma temp_dir_files:
  "(if temp_path \<in> dirs fs then Inr fs else makedirs temp_path fs) = Inr fs1 \<Longrightarrow>
   files fs1 = files fs \<and> now fs1 = now fs"
  by (auto simp: makedirs_def split: if_splits)

text \<open>
  Past the test of the export format and the staging directory, the call is the test of
  the cache followed by the download.
\<close>

lemma download_to_local_resolved:
  assumes ok: "mime_type = entry_mime_type e \<or> map_of (download_links e) mime_type \<noteq> None"
    and tmp: "(if temp_path \<in> dirs fs then Inr fs else makedirs temp_path fs) = Inr fs1"
  shows "download_to_local env next_chunk temp_path path e mime_type allow_cache fs s =
     (if use_cache allow_cache fs1 path (gd_mtime_epoch e)
      then Some (Inr (length (data (the (files fs1 path))), False), fs1, s)
      else
        (case get_authed_http env s of
           (Inl x, s1) \<Rightarrow> Some (Inl x, fs1, s1)
         | (Inr _, s1) \<Rightarrow>
             (case map_of (download_links e) mime_type of
                None \<Rightarrow> Some (Inl KeyError, fs1, s1)
              | Some url \<Rightarrow>
                  (case open_wb path fs1 of
                     Inl x \<Rightarrow> Some (Inl x, fs1, s1)
                   | Inr fs2 \<Rightarrow>
                       (case download_chunks next_chunk url path fs2 (net s1) of
                          None \<Rightarrow> None
                        | Some (Inl x, fs3, n3) \<Rightarrow> Some (Inl x, fs3, s1\<lparr>net := n3\<rparr>)
                        | Some (Inr total_size, fs3, n3) \<Rightarrow>
                            (case utime path (now fs3, gd_mtime_epoch e) fs3 of
                               Inl x \<Rightarrow> Some (Inl x, fs3, s1\<lparr>net := n3\<rparr>)
                             | Inr fs4 \<Rightarrow>
                                 Some (Inr (total_size, True), fs4, s1\<lparr>net := n3\<rparr>)))))))"
  using ok tmp unfolding download_to_local_def by (simp only: if_False simp_thms sum.case split: if_splits) auto


text \<open>
  The loop against a downloader that delivers the chunks of \<open>chunks\<close>, none of them the
  last, and then a chunk with \<^verbatim>\<open>done\<close>: it returns, and the file holds what it held
  followed by the chunks in order.
\<close>

lemma download_chunks_scripted_done:
  assumes "list_all (\<lambda>c. \<not> fst (snd c)) chunks" and "files fs path = Some f"
  shows "download_chunks scripted_next_chunk url path fs
           (map Inr chunks @ Inr (b, True, total_size) # rest)
         = Some (Inr total_size,
                 fs\<lparr>files := (files fs)(path \<mapsto>
                       f\<lparr>data := data f @ concat (map fst chunks) @ b, st_mtime := now fs\<rparr>)\<rparr>,
                 rest)"
  using assms
proof (induction chunks arbitrary: fs f)
  case Nil
  then show ?case
    by (subst download_chunks.simps) (simp add: scripted_next_chunk_def write_bytes_def)
next
  case (Cons c chunks)
  obtain bytes d t where c: "c = (bytes, d, t)" by (cases c)
  with Cons.prems have nd: "\<not> d" and rest: "list_all (\<lambda>c. \<not> fst (snd c)) chunks" by simp_all
  let ?f1 = "f\<lparr>data := data f @ bytes, st_mtime := now fs\<rparr>"
  let ?fs1 = "fs\<lparr>files := (files fs)(path \<mapsto> ?f1)\<rparr>"
  have w: "write_bytes path bytes fs = ?fs1"
    using Cons.prems(2) by (simp add: write_bytes_def)
  have f1: "files ?fs1 path = Some ?f1" by simp
  have "download_chunks scripted_next_chunk url path ?fs1
           (map Inr chunks @ Inr (b, True, total_size) # rest)
         = Some (Inr total_size,
                 ?fs1\<lparr>files := (files ?fs1)(path \<mapsto>
                       ?f1\<lparr>data := data ?f1 @ concat (map fst chunks) @ b,
                            st_mtime := now ?fs1\<rparr>)\<rparr>,
                 rest)"
    by (rule Cons.IH [OF rest f1])
  also have "?fs1\<lparr>files := (files ?fs1)(path \<mapsto>
                       ?f1\<lparr>data := data ?f1 @ concat (map fst chunks) @ b,
                            st_mtime := now ?fs1\<rparr>)\<rparr>
             = fs\<lparr>files := (files fs)(path \<mapsto>
                       f\<lparr>data := data f @ concat (map fst (c # chunks)) @ b,
                          st_mtime := now fs\<rparr>)\<rparr>"
    by (simp add: c)
  finally have ih: "download_chunks scripted_next_chunk url path ?fs1
           (map Inr chunks @ Inr (b, True, total_size) # rest)
         = Some (Inr total_size,
                 fs\<lparr>files := (files fs)(path \<mapsto>
                       f\<lparr>data := data f @ concat (map fst (c # chunks)) @ b,
                          st_mtime := now fs\<rparr>)\<rparr>,
                 rest)" .
  have step: "download_chunks scripted_next_chunk url path fs
           (map Inr (c # chunks) @ Inr (b, True, total_size) # rest)
        = download_chunks scripted_next_chunk url path ?fs1
           (map Inr chunks @ Inr (b, True, total_size) # rest)"
    by (subst download_chunks.simps) (simp add: scripted_next_chunk_def c nd w)
  show ?case by (rule trans [OF step ih])
qed

text \<open>
  The same, with an exception in place of the last chunk: the exception propagates, the
  file holds what it held followed by the chunks received.
\<close>

lemma download_chunks_scripted_broken:
  assumes "list_all (\<lambda>c. \<not> fst (snd c)) chunks" and "files fs path = Some f"
  shows "\<exists>fs3 f3. download_chunks scripted_next_chunk url path fs
           (map Inr chunks @ Inl e # rest) = Some (Inl e, fs3, rest)
         \<and> files fs3 path = Some f3 \<and> data f3 = data f @ concat (map fst chunks)"
  using assms
proof (induction chunks arbitrary: fs f)
  case Nil
  then show ?case
    by (subst download_chunks.simps) (simp add: scripted_next_chunk_def)
next
  case (Cons c chunks)
  obtain bytes d t where c: "c = (bytes, d, t)" by (cases c)
  with Cons.prems have nd: "\<not> d" and rest: "list_all (\<lambda>c. \<not> fst (snd c)) chunks" by simp_all
  let ?f1 = "f\<lparr>data := data f @ bytes, st_mtime := now fs\<rparr>"
  let ?fs1 = "fs\<lparr>files := (files fs)(path \<mapsto> ?f1)\<rparr>"
  have w: "write_bytes path bytes fs = ?fs1"
    using Cons.prems(2) by (simp add: write_bytes_def)
  have f1: "files ?fs1 path = Some ?f1" by simp
  from Cons.IH [OF rest f1] obtain fs3 f3 where
    "download_chunks scripted_next_chunk url path ?fs1 (map Inr chunks @ Inl e # rest)
       = Some (Inl e, fs3, rest)"
    and "files fs3 path = Some f3" and "data f3 = data ?f1 @ concat (map fst chunks)"
    by blast
  then show ?case
    by (subst download_chunks.simps) (simp add: scripted_next_chunk_def c nd w)
qed

lemma open_wb_empty:
  "open_wb path fs = Inr fs2 \<Longrightarrow> \<exists>f. files fs2 path = Some f \<and> data f = []"
  by (auto simp: open_wb_def split: if_splits)

text \<open>
  C7. When the requested MIME type is not the entry's own and not a key of its download
  links, the call raises \<^verbatim>\<open>ExportFormatError\<close> as its first effect: the file system and
  the session (credentials, network) are as they were, so no download was attempted.
\<close>

theorem download_to_local_export_format:
  assumes "mime_type \<noteq> entry_mime_type e" and "map_of (download_links e) mime_type = None"
  shows "download_to_local env next_chunk temp_path path e mime_type allow_cache fs s
         = Some (Inl (ExportFormatError (export_message e mime_type)), fs, s)"
  using assms by (simp add: download_to_local_def)

theorem download_to_local_export_format_witness:
  "''text/plain'' \<noteq> entry_mime_type pdf_entry
   \<and> map_of (download_links pdf_entry) ''text/plain'' = None
   \<and> download_to_local built_auth scripted_next_chunk ''/tmp/gd'' ''/tmp/gd/x'' pdf_entry
       ''text/plain'' True cached_fs \<lparr>client = None, net = []\<rparr>
     = Some (Inl (ExportFormatError
         ''Entry with ID [id1] can not be exported to type [text/plain]. The available types are: application/pdf''),
       cached_fs, \<lparr>client = None, net = []\<rparr>)"
  using download_to_local_export_format [of "''text/plain''" pdf_entry built_auth
      scripted_next_chunk "''/tmp/gd''" "''/tmp/gd/x''" True cached_fs
      "\<lparr>client = None, net = []\<rparr>"]
  by (simp add: pdf_entry_def export_message_def)

text \<open>
  C4, as the code has it. For a call with \<^verbatim>\<open>allow_cache\<close> true that is past the test
  of the export format and has its staging directory (\<open>fs1\<close> is the file system with
  it): if a file exists at the target path and its modification time equals the remote
  one, the call returns the file's size and \<^verbatim>\<open>False\<close>, and neither the session nor the
  file is touched. If there is no such file, whatever the call returns normally has the
  flag \<^verbatim>\<open>True\<close> and leaves the file with the remote modification time; and when the
  transport is granted, the link exists, the file opens and the transfer completes, the
  call does return, with the transfer's total size, the flag \<^verbatim>\<open>True\<close>, the transferred
  content and the remote modification time.
\<close>

theorem download_to_local_cache:
  assumes ok: "mime_type = entry_mime_type e \<or> map_of (download_links e) mime_type \<noteq> None"
    and tmp: "(if temp_path \<in> dirs fs then Inr fs else makedirs temp_path fs) = Inr fs1"
  shows "(\<forall>f. files fs path = Some f \<and> st_mtime f = gd_mtime_epoch e \<longrightarrow>
            download_to_local env next_chunk temp_path path e mime_type True fs s
            = Some (Inr (length (data f), False), fs1, s))
       \<and> ((\<forall>f. files fs path = Some f \<longrightarrow> st_mtime f \<noteq> gd_mtime_epoch e) \<longrightarrow>
            (\<forall>size changed fs' s'.
               download_to_local env next_chunk temp_path path e mime_type True fs s
               = Some (Inr (size, changed), fs', s') \<longrightarrow>
               changed
               \<and> (\<exists>f'. files fs' path = Some f' \<and> st_mtime f' = gd_mtime_epoch e))
          \<and> (\<forall>s1 url fs2 total_size fs3 n3.
               get_authed_http env s = (Inr (), s1)
               \<and> map_of (download_links e) mime_type = Some url
               \<and> open_wb path fs1 = Inr fs2
               \<and> download_chunks next_chunk url path fs2 (net s1)
                 = Some (Inr total_size, fs3, n3) \<longrightarrow>
               (\<exists>fs4 f'. download_to_local env next_chunk temp_path path e mime_type True fs s
                          = Some (Inr (total_size, True), fs4, s1\<lparr>net := n3\<rparr>)
                        \<and> files fs4 path = Some f'
                        \<and> st_mtime f' = gd_mtime_epoch e
                        \<and> data f' = data (the (files fs3 path)))))"
proof (intro conjI allI impI)
  fix f assume "files fs path = Some f \<and> st_mtime f = gd_mtime_epoch e"
  then have "use_cache True fs1 path (gd_mtime_epoch e)" and "files fs1 path = Some f"
    using temp_dir_files [OF tmp] by (simp_all add: use_cache_def)
  then show "download_to_local env next_chunk temp_path path e mime_type True fs s
            = Some (Inr (length (data f), False), fs1, s)"
    by (simp add: download_to_local_resolved [OF ok tmp])
next
  fix size changed fs' s'
  assume miss: "\<forall>f. files fs path = Some f \<longrightarrow> st_mtime f \<noteq> gd_mtime_epoch e"
    and res: "download_to_local env next_chunk temp_path path e mime_type True fs s
               = Some (Inr (size, changed), fs', s')"
  have nc: "\<not> use_cache True fs1 path (gd_mtime_epoch e)"
    using miss temp_dir_files [OF tmp] by (auto simp: use_cache_def split: option.splits)
  from res nc obtain fs3 where
    u: "utime path (now fs3, gd_mtime_epoch e) fs3 = Inr fs'" and ch: "changed"
    by (auto simp: download_to_local_resolved [OF ok tmp]
        split: prod.splits sum.splits option.splits)
  from u have "\<exists>f'. files fs' path = Some f' \<and> st_mtime f' = gd_mtime_epoch e"
    by (auto simp: utime_def split: option.splits)
  with ch show "changed" "\<exists>f'. files fs' path = Some f' \<and> st_mtime f' = gd_mtime_epoch e"
    by simp_all
next
  fix s1 url fs2 total_size fs3 n3
  assume miss: "\<forall>f. files fs path = Some f \<longrightarrow> st_mtime f \<noteq> gd_mtime_epoch e"
    and run: "get_authed_http env s = (Inr (), s1)
               \<and> map_of (download_links e) mime_type = Some url
               \<and> open_wb path fs1 = Inr fs2
               \<and> download_chunks next_chunk url path fs2 (net s1)
                 = Some (Inr total_size, fs3, n3)"
  have nc: "\<not> use_cache True fs1 path (gd_mtime_epoch e)"
    using miss temp_dir_files [OF tmp] by (auto simp: use_cache_def split: option.splits)
  from run open_wb_empty have "files fs2 path \<noteq> None" by fastforce
  with run download_chunks_keeps_file [of next_chunk url path fs2 "net s1"
      "(Inr total_size, fs3, n3)"]
  obtain f3 where f3: "files fs3 path = Some f3" by auto
  let ?f4 = "f3\<lparr>st_mtime := gd_mtime_epoch e, st_atime := now fs3\<rparr>"
  let ?fs4 = "fs3\<lparr>files := (files fs3)(path \<mapsto> ?f4)\<rparr>"
  have u: "utime path (now fs3, gd_mtime_epoch e) fs3 = Inr ?fs4"
    using f3 by (simp add: utime_def)
  have "download_to_local env next_chunk temp_path path e mime_type True fs s
          = Some (Inr (total_size, True), ?fs4, s1\<lparr>net := n3\<rparr>)"
    using run nc u by (simp add: download_to_local_resolved [OF ok tmp])
  moreover have "files ?fs4 path = Some ?f4" by simp
  moreover have "st_mtime ?f4 = gd_mtime_epoch e" by simp
  moreover have "data ?f4 = data (the (files fs3 path))" using f3 by simp
  ultimately show "\<exists>fs4 f'. download_to_local env next_chunk temp_path path e mime_type True fs s
                          = Some (Inr (total_size, True), fs4, s1\<lparr>net := n3\<rparr>)
                        \<and> files fs4 path = Some f'
                        \<and> st_mtime f' = gd_mtime_epoch e
                        \<and> data f' = data (the (files fs3 path))"
    by blast
qed

text \<open>
  C10. A call that does not use the cache and gets as far as the transfer has opened the
  target file for writing, which empties it, before the first chunk is asked for. When
  the downloader then raises after delivering the chunks of \<open>chunks\<close> (none, possibly),
  the exception propagates and the file holds exactly these chunks: nothing of what it
  held before the call.
\<close>

theorem download_to_local_failed_transfer:
  assumes ok: "mime_type = entry_mime_type e \<or> map_of (download_links e) mime_type \<noteq> None"
    and tmp: "(if temp_path \<in> dirs fs then Inr fs else makedirs temp_path fs) = Inr fs1"
    and nc: "\<not> use_cache allow_cache fs1 path (gd_mtime_epoch e)"
    and http: "get_authed_http env s = (Inr (), s1)"
    and url: "map_of (download_links e) mime_type = Some url"
    and opened: "open_wb path fs1 = Inr fs2"
    and script: "net s1 = map Inr chunks @ Inl x # rest"
    and going: "list_all (\<lambda>c. \<not> fst (snd c)) chunks"
  shows "\<exists>fs3 f3. download_to_local env scripted_next_chunk temp_path path e mime_type
                     allow_cache fs s
                   = Some (Inl x, fs3, s1\<lparr>net := rest\<rparr>)
                 \<and> files fs3 path = Some f3
                 \<and> data f3 = concat (map fst chunks)"
proof -
  from open_wb_empty [OF opened] obtain f2 where
    f2: "files fs2 path = Some f2" and empty: "data f2 = []" by blast
  from download_chunks_scripted_broken [OF going f2, of url x rest] obtain fs3 f3 where
    dl: "download_chunks scripted_next_chunk url path fs2 (map Inr chunks @ Inl x # rest)
         = Some (Inl x, fs3, rest)"
    and f3: "files fs3 path = Some f3" "data f3 = data f2 @ concat (map fst chunks)"
    by blast
  have "download_to_local env scripted_next_chunk temp_path path e mime_type allow_cache fs s
        = Some (Inl x, fs3, s1\<lparr>net := rest\<rparr>)"
    using nc http url opened script dl by (simp add: download_to_local_resolved [OF ok tmp])
  with f3 empty show ?thesis by simp
qed


lemma cached_hit:
  "files cached_fs ''/tmp/gd/x'' = Some \<lparr>data = ''old'', st_mtime = 100, st_atime = 7\<rparr>"
  by (simp add: cached_fs_def)

theorem download_to_local_cache_witness:
  "download_to_local built_auth scripted_next_chunk ''/tmp/gd'' ''/tmp/gd/x'' pdf_entry
     ''application/pdf'' True cached_fs \<lparr>client = None, net = []\<rparr>
   = Some (Inr (3, False), cached_fs, \<lparr>client = None, net = []\<rparr>)
   \<and> (\<exists>fs4 f'.
        download_to_local built_auth scripted_next_chunk ''/tmp/gd'' ''/tmp/gd/x''
          (pdf_entry\<lparr>modified_date := 101\<rparr>) ''application/pdf'' True cached_fs
          \<lparr>client = None, net = [Inr (''ab'', False, 4), Inr (''cd'', True, 4)]\<rparr>
        = Some (Inr (4, True), fs4, \<lparr>client = None, net = []\<rparr>)
        \<and> files fs4 ''/tmp/gd/x'' = Some f' \<and> st_mtime f' = 101 \<and> data f' = ''abcd'')"
proof
  have ok: "''application/pdf'' = entry_mime_type pdf_entry
            \<or> map_of (download_links pdf_entry) ''application/pdf'' \<noteq> None"
    by (simp add: pdf_entry_def)
  have tmp: "(if ''/tmp/gd'' \<in> dirs cached_fs then Inr cached_fs
              else makedirs ''/tmp/gd'' cached_fs) = Inr cached_fs"
    by (simp add: cached_fs_def)
  have gd: "gd_mtime_epoch pdf_entry = 100"
    by (simp add: gd_mtime_epoch_def pdf_entry_def)
  from download_to_local_cache [where path = "''/tmp/gd/x''" and env = built_auth
      and next_chunk = scripted_next_chunk and s = "\<lparr>client = None, net = []\<rparr>", OF ok tmp]
    cached_hit gd
  show "download_to_local built_auth scripted_next_chunk ''/tmp/gd'' ''/tmp/gd/x'' pdf_entry
     ''application/pdf'' True cached_fs \<lparr>client = None, net = []\<rparr>
   = Some (Inr (3, False), cached_fs, \<lparr>client = None, net = []\<rparr>)"
    by simp
next
  let ?e = "pdf_entry\<lparr>modified_date := 101\<rparr>"
  let ?s = "\<lparr>client = None :: unit option,
             net = [Inr (''ab'', False, 4), Inr (''cd'', True, 4)]
                   :: (exn + string \<times> bool \<times> nat) list\<rparr>"
  let ?f2 = "\<lparr>data = [], st_mtime = 500, st_atime = 7\<rparr>"
  let ?fs2 = "cached_fs\<lparr>files := (files cached_fs)(''/tmp/gd/x'' \<mapsto> ?f2)\<rparr>"
  let ?fs3 = "?fs2\<lparr>files := (files ?fs2)(''/tmp/gd/x'' \<mapsto>
                ?f2\<lparr>data := data ?f2 @ concat (map fst [(''ab'', False, 4 :: nat)]) @ ''cd'',
                     st_mtime := now ?fs2\<rparr>)\<rparr>"
  have ok: "''application/pdf'' = entry_mime_type ?e
            \<or> map_of (download_links ?e) ''application/pdf'' \<noteq> None"
    by (simp add: pdf_entry_def)
  have tmp: "(if ''/tmp/gd'' \<in> dirs cached_fs then Inr cached_fs
              else makedirs ''/tmp/gd'' cached_fs) = Inr cached_fs"
    by (simp add: cached_fs_def)
  have gd: "gd_mtime_epoch ?e = 101"
    by (simp add: gd_mtime_epoch_def)
  have miss: "\<forall>f. files cached_fs ''/tmp/gd/x'' = Some f \<longrightarrow> st_mtime f \<noteq> gd_mtime_epoch ?e"
    by (simp add: cached_hit gd)
  have http: "get_authed_http built_auth ?s = (Inr (), ?s)"
    by (simp add: get_authed_http_def built_auth_def)
  have url: "map_of (download_links ?e) ''application/pdf'' = Some ''http://u''"
    by (simp add: pdf_entry_def)
  have opened: "open_wb ''/tmp/gd/x'' cached_fs = Inr ?fs2"
    by (simp add: open_wb_def cached_fs_def)
  have dl: "download_chunks scripted_next_chunk ''http://u'' ''/tmp/gd/x'' ?fs2 (net ?s)
            = Some (Inr 4, ?fs3, [])"
    using download_chunks_scripted_done [of "[(''ab'', False, 4)]" ?fs2 "''/tmp/gd/x''" ?f2
        "''http://u''" "''cd''" 4 "[]"]
    by simp
  from download_to_local_cache [where path = "''/tmp/gd/x''" and env = built_auth
      and next_chunk = scripted_next_chunk and s = ?s, OF ok tmp]
  have "\<forall>s1 url fs2 total_size fs3 n3.
          get_authed_http built_auth ?s = (Inr (), s1)
          \<and> map_of (download_links ?e) ''application/pdf'' = Some url
          \<and> open_wb ''/tmp/gd/x'' cached_fs = Inr fs2
          \<and> download_chunks scripted_next_chunk url ''/tmp/gd/x'' fs2 (net s1)
            = Some (Inr total_size, fs3, n3) \<longrightarrow>
          (\<exists>fs4 f'. download_to_local built_auth scripted_next_chunk ''/tmp/gd'' ''/tmp/gd/x''
                       ?e ''application/pdf'' True cached_fs ?s
                     = Some (Inr (total_size, True), fs4, s1\<lparr>net := n3\<rparr>)
                   \<and> files fs4 ''/tmp/gd/x'' = Some f'
                   \<and> st_mtime f' = gd_mtime_epoch ?e
                   \<and> data f' = data (the (files fs3 ''/tmp/gd/x'')))"
    using miss by blast
  from this [rule_format, of ?s "''http://u''" ?fs2 4 ?fs3 "[]"] http url opened dl
  obtain fs4 f' where
    "download_to_local built_auth scripted_next_chunk ''/tmp/gd'' ''/tmp/gd/x''
       ?e ''application/pdf'' True cached_fs ?s
     = Some (Inr (4, True), fs4, ?s\<lparr>net := []\<rparr>)"
    and "files fs4 ''/tmp/gd/x'' = Some f'" and "st_mtime f' = gd_mtime_epoch ?e"
    and "data f' = data (the (files ?fs3 ''/tmp/gd/x''))"
    by blast
  then show "\<exists>fs4 f'.
        download_to_local built_auth scripted_next_chunk ''/tmp/gd'' ''/tmp/gd/x''
          ?e ''application/pdf'' True cached_fs
          \<lparr>client = None, net = [Inr (''ab'', False, 4), Inr (''cd'', True, 4)]\<rparr>
        = Some (Inr (4, True), fs4, \<lparr>client = None, net = []\<rparr>)
        \<and> files fs4 ''/tmp/gd/x'' = Some f' \<and> st_mtime f' = 101 \<and> data f' = ''abcd''"
    by (simp add: gd)
qed

text \<open>
  C4 as stated fails where the guard for the export format comes first: the cached file
  is there with the remote modification time, and the call raises
  \<^verbatim>\<open>ExportFormatError\<close> in place of using it. It fails too where the transfer breaks: a
  download was started, and the file is left with the time of the write (500), not the
  remote one (101).
\<close>

theorem download_to_local_cache_guarded:
  "use_cache True cached_fs ''/tmp/gd/x'' (gd_mtime_epoch pdf_entry)
   \<and> download_to_local built_auth scripted_next_chunk ''/tmp/gd'' ''/tmp/gd/x'' pdf_entry
       ''text/plain'' True cached_fs \<lparr>client = None, net = []\<rparr>
     = Some (Inl (ExportFormatError (export_message pdf_entry ''text/plain'')), cached_fs,
             \<lparr>client = None, net = []\<rparr>)
   \<and> download_to_local built_auth scripted_next_chunk ''/tmp/gd'' ''/tmp/gd/x''
       (pdf_entry\<lparr>modified_date := 101\<rparr>) ''application/pdf'' True cached_fs
       \<lparr>client = None, net = [Inl (SSLError ''reset'')]\<rparr>
     = Some (Inl (SSLError ''reset''),
             cached_fs\<lparr>files := (files cached_fs)(''/tmp/gd/x'' \<mapsto>
                         \<lparr>data = [], st_mtime = 500, st_atime = 7\<rparr>)\<rparr>,
             \<lparr>client = None, net = []\<rparr>)"
proof (intro conjI)
  show "use_cache True cached_fs ''/tmp/gd/x'' (gd_mtime_epoch pdf_entry)"
    by (simp add: use_cache_def cached_hit gd_mtime_epoch_def pdf_entry_def)
  show "download_to_local built_auth scripted_next_chunk ''/tmp/gd'' ''/tmp/gd/x'' pdf_entry
       ''text/plain'' True cached_fs \<lparr>client = None, net = []\<rparr>
     = Some (Inl (ExportFormatError (export_message pdf_entry ''text/plain'')), cached_fs,
             \<lparr>client = None, net = []\<rparr>)"
    by (simp add: download_to_local_def pdf_entry_def)
  have "download_chunks scripted_next_chunk ''http://u'' ''/tmp/gd/x''
          (cached_fs\<lparr>files := (files cached_fs)(''/tmp/gd/x'' \<mapsto>
                         \<lparr>data = [], st_mtime = 500, st_atime = 7\<rparr>)\<rparr>)
          [Inl (SSLError ''reset'')]
        = Some (Inl (SSLError ''reset''),
                cached_fs\<lparr>files := (files cached_fs)(''/tmp/gd/x'' \<mapsto>
                         \<lparr>data = [], st_mtime = 500, st_atime = 7\<rparr>)\<rparr>, [])"
    by (subst download_chunks.simps) (simp add: scripted_next_chunk_def)
  then show "download_to_local built_auth scripted_next_chunk ''/tmp/gd'' ''/tmp/gd/x''
       (pdf_entry\<lparr>modified_date := 101\<rparr>) ''application/pdf'' True cached_fs
       \<lparr>client = None, net = [Inl (SSLError ''reset'')]\<rparr>
     = Some (Inl (SSLError ''reset''),
             cached_fs\<lparr>files := (files cached_fs)(''/tmp/gd/x'' \<mapsto>
                         \<lparr>data = [], st_mtime = 500, st_atime = 7\<rparr>)\<rparr>,
             \<lparr>client = None, net = []\<rparr>)"
    by (simp add: download_to_local_def pdf_entry_def use_cache_def cached_hit
        gd_mtime_epoch_def get_authed_http_def built_auth_def open_wb_def cached_fs_def)
qed

theorem download_to_local_failed_transfer_witness:
  "\<exists>fs3 f3. download_to_local built_auth scripted_next_chunk ''/tmp/gd'' ''/tmp/gd/x''
               (pdf_entry\<lparr>modified_date := 101\<rparr>) ''application/pdf'' True cached_fs
               \<lparr>client = None, net = [Inr (''ab'', False, 4), Inl (SSLError ''reset'')]\<rparr>
             = Some (Inl (SSLError ''reset''), fs3, \<lparr>client = None, net = []\<rparr>)
           \<and> files fs3 ''/tmp/gd/x'' = Some f3 \<and> data f3 = ''ab''"
proof -
  let ?e = "pdf_entry\<lparr>modified_date := 101\<rparr>"
  let ?s = "\<lparr>client = None :: unit option,
             net = [Inr (''ab'', False, 4), Inl (SSLError ''reset'')]
                   :: (exn + string \<times> bool \<times> nat) list\<rparr>"
  let ?f2 = "\<lparr>data = [], st_mtime = 500, st_atime = 7\<rparr>"
  let ?fs2 = "cached_fs\<lparr>files := (files cached_fs)(''/tmp/gd/x'' \<mapsto> ?f2)\<rparr>"
  have ok: "''application/pdf'' = entry_mime_type ?e
            \<or> map_of (download_links ?e) ''application/pdf'' \<noteq> None"
    by (simp add: pdf_entry_def)
  have tmp: "(if ''/tmp/gd'' \<in> dirs cached_fs then Inr cached_fs
              else makedirs ''/tmp/gd'' cached_fs) = Inr cached_fs"
    by (simp add: cached_fs_def)
  have nc: "\<not> use_cache True cached_fs ''/tmp/gd/x'' (gd_mtime_epoch ?e)"
    by (simp add: use_cache_def cached_hit gd_mtime_epoch_def)
  have http: "get_authed_http built_auth ?s = (Inr (), ?s)"
    by (simp add: get_authed_http_def built_auth_def)
  have url: "map_of (download_links ?e) ''application/pdf'' = Some ''http://u''"
    by (simp add: pdf_entry_def)
  have opened: "open_wb ''/tmp/gd/x'' cached_fs = Inr ?fs2"
    by (simp add: open_wb_def cached_fs_def)
  have script: "net ?s = map Inr [(''ab'', False, 4)] @ Inl (SSLError ''reset'') # []"
    by simp
  have going: "list_all (\<lambda>c. \<not> fst (snd c)) [(''ab'', False, 4 :: nat)]"
    by simp
  from download_to_local_failed_transfer [OF ok tmp nc http url opened script going]
  show ?thesis by simp
qed

section \<open>Properties of the request bodies\<close>

lemma update_body_title:
  "update_entry_body normalized_entry now_phrase filename mime_type parents
       modified_datetime accessed_datetime is_hidden description ''title''
     = map_option PStr filename"
  by (simp add: update_entry_body_def Let_def split: option.splits)

lemma update_body_parents:
  "update_entry_body normalized_entry now_phrase filename mime_type parents
       modified_datetime accessed_datetime is_hidden description ''parents''
     = parents"
  by (simp add: update_entry_body_def Let_def split: option.splits)

lemma update_body_description:
  "update_entry_body normalized_entry now_phrase filename mime_type parents
       modified_datetime accessed_datetime is_hidden description ''description''
     = map_option PStr description"
  by (simp add: update_entry_body_def Let_def split: option.splits)

lemma update_body_accessed:
  "update_entry_body normalized_entry now_phrase filename mime_type parents
       modified_datetime accessed_datetime is_hidden description ''lastViewedByMeDate''
     = map_option PStr accessed_datetime"
  by (simp add: update_entry_body_def Let_def split: option.splits)

lemma update_body_mime:
  "update_entry_body normalized_entry now_phrase filename mime_type parents
       modified_datetime accessed_datetime is_hidden description ''mimeType''
     = Some (PStr (if truthy mime_type then the mime_type
                   else entry_mime_type normalized_entry))"
  by (simp add: update_entry_body_def Let_def split: option.splits)

lemma update_body_modified:
  "update_entry_body normalized_entry now_phrase filename mime_type parents
       modified_datetime accessed_datetime is_hidden description ''modifiedDate''
     = Some (PStr (default now_phrase modified_datetime))"
  by (simp add: update_entry_body_def Let_def default_def split: option.splits)

lemma insert_body_dom:
  "dom (insert_entry_body now_phrase filename mime_type parents modified_datetime
            accessed_datetime is_hidden description)
     = {''lastViewedByMeDate'', ''modifiedDate'', ''description'', ''labels'', ''mimeType'',
        ''parents'', ''title''}"
  unfolding insert_entry_body_def by (simp only: dom_fun_upd dom_empty option.simps if_False)

lemma insert_body_values:
  "insert_entry_body now_phrase filename mime_type parents modified_datetime
       accessed_datetime is_hidden description ''modifiedDate''
     = Some (PStr (default now_phrase modified_datetime))
   \<and> insert_entry_body now_phrase filename mime_type parents modified_datetime
       accessed_datetime is_hidden description ''lastViewedByMeDate''
     = Some (PStr (default now_phrase accessed_datetime))
   \<and> insert_entry_body now_phrase filename mime_type parents modified_datetime
       accessed_datetime is_hidden description ''description''
     = Some (case description of None \<Rightarrow> PNone | Some d \<Rightarrow> PStr d)"
  by (simp add: insert_entry_body_def)

text \<open>
  C9, as the code has it. The body of an update holds the title, the parents, the
  description and the last-viewed time exactly when the caller gave them, with the
  caller's values; it always holds the MIME type (the caller's, or the entry's own) and
  the modification time, the caller's when given and the current time otherwise. The
  body of an insert always holds all seven fields: the modification and last-viewed
  times are the caller's when given and the current time otherwise, the description is
  the caller's or \<^verbatim>\<open>None\<close>.
\<close>

theorem request_bodies:
  "update_entry_body normalized_entry now_phrase filename mime_type parents
       modified_datetime accessed_datetime is_hidden description ''title''
     = map_option PStr filename
   \<and> update_entry_body normalized_entry now_phrase filename mime_type parents
       modified_datetime accessed_datetime is_hidden description ''parents''
     = parents
   \<and> update_entry_body normalized_entry now_phrase filename mime_type parents
       modified_datetime accessed_datetime is_hidden description ''description''
     = map_option PStr description
   \<and> update_entry_body normalized_entry now_phrase filename mime_type parents
       modified_datetime accessed_datetime is_hidden description ''lastViewedByMeDate''
     = map_option PStr accessed_datetime
   \<and> update_entry_body normalized_entry now_phrase filename mime_type parents
       modified_datetime accessed_datetime is_hidden description ''mimeType''
     = Some (PStr (if truthy mime_type then the mime_type
                   else entry_mime_type normalized_entry))
   \<and> update_entry_body normalized_entry now_phrase filename mime_type parents
       modified_datetime accessed_datetime is_hidden description ''modifiedDate''
     = Some (PStr (default now_phrase modified_datetime))
   \<and> dom (insert_entry_body now_phrase title mime parent_ids modified_datetime
            accessed_datetime is_hidden description)
     = {''lastViewedByMeDate'', ''modifiedDate'', ''description'', ''labels'', ''mimeType'',
        ''parents'', ''title''}
   \<and> insert_entry_body now_phrase title mime parent_ids modified_datetime
       accessed_datetime is_hidden description ''modifiedDate''
     = Some (PStr (default now_phrase modified_datetime))
   \<and> insert_entry_body now_phrase title mime parent_ids modified_datetime
       accessed_datetime is_hidden description ''lastViewedByMeDate''
     = Some (PStr (default now_phrase accessed_datetime))
   \<and> insert_entry_body now_phrase title mime parent_ids modified_datetime
       accessed_datetime is_hidden description ''description''
     = Some (case description of None \<Rightarrow> PNone | Some d \<Rightarrow> PStr d)"
  by (simp only: update_body_title update_body_parents update_body_description
      update_body_accessed update_body_mime update_body_modified insert_body_dom
      insert_body_values simp_thms)

text \<open>
  C9 as stated fails for fields the caller left out: an insert with only its required
  arguments sends \<^verbatim>\<open>description\<close> as \<^verbatim>\<open>None\<close>, \<^verbatim>\<open>lastViewedByMeDate\<close> as the current
  time and \<^verbatim>\<open>labels\<close> as not hidden; an update with no optional argument sends
  \<^verbatim>\<open>labels\<close> as not hidden and the entry's own MIME type.
\<close>

theorem request_bodies_hold_defaults:
  "insert_entry_body ''now'' ''a.txt'' ''text/plain'' (Some [''root'']) None None None None
     ''description'' = Some PNone
   \<and> insert_entry_body ''now'' ''a.txt'' ''text/plain'' (Some [''root'']) None None None None
     ''lastViewedByMeDate'' = Some (PStr ''now'')
   \<and> insert_entry_body ''now'' ''a.txt'' ''text/plain'' (Some [''root'']) None None None None
     ''labels'' = Some (PDict [(''hidden'', PBool False)])
   \<and> update_entry_body pdf_entry ''now'' None None None None None None None ''labels''
     = Some (PDict [(''hidden'', PBool False)])
   \<and> update_entry_body pdf_entry ''now'' None None None None None None None ''mimeType''
     = Some (PStr ''application/pdf'')"
  by (simp add: update_entry_body_def insert_entry_body_def Let_def default_def truthy_def
      pdf_entry_def)

end
